theory Spec2Isabelle
  imports Complex_Main "HOL-Library.Sublist"
begin

section \<open>Python strings\<close>

text \<open>
  A Python \<open>str\<close> is modelled as a \<open>string\<close> of ASCII characters. \<open>str.lower\<close> and
  \<open>str.upper\<close> change the 26 ASCII letters and leave every other character alone;
  the case mappings of non-ASCII code points are not modelled. Floats are modelled by
  the real numbers their literals denote.
\<close>

definition lower_char :: "char \<Rightarrow> char" where
  "lower_char c =
     (case map_of (zip ''ABCDEFGHIJKLMNOPQRSTUVWXYZ'' ''abcdefghijklmnopqrstuvwxyz'') c of
        Some d \<Rightarrow> d
      | None \<Rightarrow> c)"

definition upper_char :: "char \<Rightarrow> char" where
  "upper_char c =
     (case map_of (zip ''abcdefghijklmnopqrstuvwxyz'' ''ABCDEFGHIJKLMNOPQRSTUVWXYZ'') c of
        Some d \<Rightarrow> d
      | None \<Rightarrow> c)"

text \<open>The same function on the bits of a character (the least significant bit first):
  an upper-case letter is \<open>0x41\<close> to \<open>0x5A\<close>, and its lower-case letter differs from it
  in the bit \<open>0x20\<close>. Evaluation uses this equation.\<close>

lemma upper_case_range:
  "Char b0 b1 b2 b3 b4 b5 b6 b7 \<in> set ''ABCDEFGHIJKLMNOPQRSTUVWXYZ'' \<longleftrightarrow>
     (\<not> b7 \<and> b6 \<and> \<not> b5 \<and> (b0 \<or> b1 \<or> b2 \<or> b3 \<or> b4) \<and>
         \<not> (b4 \<and> b3 \<and> (b2 \<or> (b1 \<and> b0))))"
  by (cases b0; cases b1; cases b2; cases b3; cases b4; auto)

lemma lower_char_outside:
  "c \<notin> set ''ABCDEFGHIJKLMNOPQRSTUVWXYZ'' \<Longrightarrow> lower_char c = c"
  by (simp add: lower_char_def)

lemma lower_char_inside:
  "c \<in> set ''ABCDEFGHIJKLMNOPQRSTUVWXYZ'' \<Longrightarrow>
   lower_char c =
     (case c of Char b0 b1 b2 b3 b4 b5 b6 b7 \<Rightarrow> Char b0 b1 b2 b3 b4 True b6 b7)"
  by (auto simp: lower_char_def)

lemma lower_char_code [code]:
  "lower_char (Char b0 b1 b2 b3 b4 b5 b6 b7) =
     (if \<not> b7 \<and> b6 \<and> \<not> b5 \<and> (b0 \<or> b1 \<or> b2 \<or> b3 \<or> b4) \<and>
         \<not> (b4 \<and> b3 \<and> (b2 \<or> (b1 \<and> b0)))
      then Char b0 b1 b2 b3 b4 True b6 b7
      else Char b0 b1 b2 b3 b4 b5 b6 b7)"
  using lower_char_outside [of "Char b0 b1 b2 b3 b4 b5 b6 b7"]
        lower_char_inside [of "Char b0 b1 b2 b3 b4 b5 b6 b7"]
  unfolding upper_case_range by (simp split: if_splits)

definition lower :: "string \<Rightarrow> string" where
  "lower s = map lower_char s"

definition upper :: "string \<Rightarrow> string" where
  "upper s = map upper_char s"

text \<open>\<open>py_in x s\<close> is Python's \<open>x in s\<close> on strings: \<open>x\<close> occurs in \<open>s\<close> as a
  contiguous substring.\<close>

fun py_in :: "string \<Rightarrow> string \<Rightarrow> bool" where
  "py_in x [] = (x = [])"
| "py_in x (c # cs) = (prefix x (c # cs) \<or> py_in x cs)"

text \<open>\<open>any_in ks s\<close> is \<open>any(k in s for k in ks)\<close>.\<close>

definition any_in :: "string list \<Rightarrow> string \<Rightarrow> bool" where
  "any_in ks s = list_ex (\<lambda>k. py_in k s) ks"

text \<open>The ASCII characters for which \<open>str.isspace\<close> holds; \<open>str.strip()\<close> and
  \<open>str.split()\<close> treat exactly these as white space.\<close>

definition is_space :: "char \<Rightarrow> bool" where
  "is_space c \<longleftrightarrow>
     c \<in> set [CHR 0x09, CHR 0x0A, CHR 0x0B, CHR 0x0C, CHR 0x0D,
              CHR 0x1C, CHR 0x1D, CHR 0x1E, CHR 0x1F, CHR 0x20]"

definition py_strip :: "string \<Rightarrow> string" where
  "py_strip s = rev (dropWhile is_space (rev (dropWhile is_space s)))"

text \<open>\<open>py_split s\<close> is \<open>s.split()\<close>: the maximal runs of characters that are not white
  space. The first argument of \<open>py_split_aux\<close> is the word read so far.\<close>

fun py_split_aux :: "string \<Rightarrow> string \<Rightarrow> string list" where
  "py_split_aux w [] = (if w = [] then [] else [w])"
| "py_split_aux w (c # cs) =
     (if is_space c then (if w = [] then py_split_aux [] cs else w # py_split_aux [] cs)
      else py_split_aux (w @ [c]) cs)"

definition py_split :: "string \<Rightarrow> string list" where
  "py_split s = py_split_aux [] s"

text \<open>\<open>py_replace old new s\<close> is \<open>s.replace(old, new)\<close>: the occurrences of \<open>old\<close> are
  replaced from left to right without overlap. The first argument of \<open>py_replace_aux\<close>
  counts the characters of the current occurrence still to be skipped. With an empty
  \<open>old\<close>, Python puts \<open>new\<close> before every character and at the end.\<close>

fun py_replace_aux :: "nat \<Rightarrow> string \<Rightarrow> string \<Rightarrow> string \<Rightarrow> string" where
  "py_replace_aux k old new [] = []"
| "py_replace_aux (Suc k) old new (c # cs) = py_replace_aux k old new cs"
| "py_replace_aux 0 old new (c # cs) =
     (if prefix old (c # cs) then new @ py_replace_aux (length old - 1) old new cs
      else c # py_replace_aux 0 old new cs)"

definition py_replace :: "string \<Rightarrow> string \<Rightarrow> string \<Rightarrow> string" where
  "py_replace old new s =
     (if old = [] then concat (map (\<lambda>c. new @ [c]) s) @ new
      else py_replace_aux 0 old new s)"

text \<open>\<open>py_find x s\<close> is \<open>s.find(x)\<close>: the least index at which \<open>x\<close> occurs, or \<open>-1\<close>.\<close>

fun py_find_aux :: "string \<Rightarrow> string \<Rightarrow> nat \<Rightarrow> int" where
  "py_find_aux x [] i = (if x = [] then int i else - 1)"
| "py_find_aux x (c # cs) i =
     (if prefix x (c # cs) then int i else py_find_aux x cs (Suc i))"

definition py_find :: "string \<Rightarrow> string \<Rightarrow> int" where
  "py_find x s = py_find_aux x s 0"

text \<open>\<open>py_slice s a b\<close> is \<open>s[a:b]\<close>: a negative index counts from the end, and both
  indices are clamped to the string.\<close>

definition py_index :: "'a list \<Rightarrow> int \<Rightarrow> nat" where
  "py_index xs i =
     (let n = int (length xs); j = (if i < 0 then n + i else i)
      in nat (max 0 (min n j)))"

definition py_slice :: "'a list \<Rightarrow> int \<Rightarrow> int \<Rightarrow> 'a list" where
  "py_slice xs a b = drop (py_index xs a) (take (py_index xs b) xs)"

text \<open>\<open>py_upto xs b\<close> is \<open>xs[:b]\<close> and \<open>py_last xs n\<close> is \<open>xs[-n:]\<close> for \<open>n > 0\<close>.\<close>

definition py_upto :: "'a list \<Rightarrow> int \<Rightarrow> 'a list" where
  "py_upto xs b = take (py_index xs b) xs"

definition py_last :: "'a list \<Rightarrow> nat \<Rightarrow> 'a list" where
  "py_last xs n = drop (length xs - n) xs"

text \<open>\<open>str.capitalize\<close>: the first character in upper case, the others in lower case.\<close>

definition capitalize :: "string \<Rightarrow> string" where
  "capitalize s = (case s of [] \<Rightarrow> [] | c # cs \<Rightarrow> upper_char c # lower cs)"

section \<open>Tier routing and severity classification (services/tier\_routing.py)\<close>

datatype Tier = TIER_1 | TIER_2 | TIER_3

datatype Severity = LOW | MEDIUM | HIGH | CRITICAL

definition CRITICAL_KEYWORDS :: "string list" where
  "CRITICAL_KEYWORDS =
     [''crash'', ''crashed'', ''panic'', ''frozen'', ''froze'', ''lost work'', ''lost progress'',
      ''kernel panic'', ''system down'', ''cannot access'', ''completely broken'',
      ''urgent'', ''emergency'', ''asap'', ''immediately'']"

definition MEDIUM_KEYWORDS :: "string list" where
  "MEDIUM_KEYWORDS =
     [''not working'', ''issue'', ''problem'', ''error'', ''failed'', ''failure'',
      ''slow'', ''lag'', ''timeout'', ''redirect'', ''redirected'']"

definition LOW_KEYWORDS :: "string list" where
  "LOW_KEYWORDS =
     [''question'', ''how to'', ''guide'', ''tutorial'', ''help with'', ''explain'',
      ''information'', ''documentation'']"

definition AMBIGUOUS_WORDS :: "string list" where
  "AMBIGUOUS_WORDS = [''environment'', ''toolset'', ''wrong'', ''incorrect'', ''different'']"

text \<open>The severity chosen from the keyword tables, before any boost.\<close>

definition keyword_severity :: "string \<Rightarrow> Severity" where
  "keyword_severity query_lower =
     (if any_in CRITICAL_KEYWORDS query_lower then CRITICAL
      else if any_in MEDIUM_KEYWORDS query_lower then MEDIUM
      else if any_in LOW_KEYWORDS query_lower then LOW
      else LOW)"

text \<open>One boost step: \<open>LOW\<close> to \<open>MEDIUM\<close>, \<open>MEDIUM\<close> to \<open>HIGH\<close>, anything else unchanged.\<close>

definition boost :: "Severity \<Rightarrow> Severity" where
  "boost severity =
     (if severity = LOW then MEDIUM else if severity = MEDIUM then HIGH else severity)"

definition classify_tier_and_severity ::
  "string \<Rightarrow> real \<Rightarrow> real \<Rightarrow> bool \<Rightarrow> int \<Rightarrow> Tier \<times> Severity \<times> bool" where
  "classify_tier_and_severity query kb_match_confidence sentiment_score has_kb_match
       unresolved_attempts =
     (let query_lower = lower query;
          severity = keyword_severity query_lower;
          severity = (if sentiment_score > 0.7 then boost severity else severity);
          severity = (if unresolved_attempts \<ge> 2 then boost severity else severity);
          is_ambiguous_environment_query = any_in AMBIGUOUS_WORDS query_lower;
          tier =
            (if severity = CRITICAL \<or>
                (\<not> has_kb_match \<and> \<not> is_ambiguous_environment_query) \<or>
                (kb_match_confidence < 0.2 \<and> \<not> has_kb_match \<and>
                   \<not> is_ambiguous_environment_query) \<or>
                sentiment_score > 0.7 \<or>
                unresolved_attempts \<ge> 3
             then TIER_3
             else if has_kb_match \<and> kb_match_confidence \<ge> 0.3 \<and>
                     severity \<in> set [LOW, MEDIUM] \<and> sentiment_score < 0.5 \<and>
                     unresolved_attempts < 2
             then TIER_1
             else TIER_2);
          needs_escalation =
            (tier = TIER_3 \<or> severity = CRITICAL \<or>
             (\<not> has_kb_match \<and> kb_match_confidence < 0.2 \<and>
                \<not> is_ambiguous_environment_query) \<or>
             sentiment_score > 0.7 \<or>
             unresolved_attempts \<ge> 2);
          needs_escalation =
            (if has_kb_match \<and> kb_match_confidence \<ge> 0.3 \<and>
                severity \<in> set [LOW, MEDIUM] \<and> sentiment_score < 0.5
             then False else needs_escalation);
          needs_escalation =
            (if is_ambiguous_environment_query \<and> severity \<noteq> CRITICAL
             then False else needs_escalation)
      in (tier, severity, needs_escalation))"

text \<open>The three components of the classifier's result.\<close>

definition tier_of :: "Tier \<times> Severity \<times> bool \<Rightarrow> Tier" where
  "tier_of r = fst r"

definition severity_of :: "Tier \<times> Severity \<times> bool \<Rightarrow> Severity" where
  "severity_of r = fst (snd r)"

definition escalation_of :: "Tier \<times> Severity \<times> bool \<Rightarrow> bool" where
  "escalation_of r = snd (snd r)"


text \<open>\<open>should_ask_clarifying_question\<close>: \<open>kb_matches\<close> enters only through its length
  and \<open>conversation_history\<close> is not read at all.\<close>

definition KB_CONFLICT_PHRASES :: "string list" where
  "KB_CONFLICT_PHRASES =
     [''kb docs say different'', ''kb documents say different'', ''two kb'', ''multiple kb'',
      ''conflicting kb'', ''kb conflict'', ''which kb'', ''which is right'',
      ''which is correct'']"

definition ENVIRONMENT_WORDS :: "string list" where
  "ENVIRONMENT_WORDS = [''environment'', ''toolset'', ''wrong'', ''incorrect'']"

definition CLARIFY_ENVIRONMENT :: string where
  "CLARIFY_ENVIRONMENT =
     ''I need more details to help you. Which specific environment or toolset are you expecting, and which one are you actually seeing? Also, which training module are you working on?''"

definition should_ask_clarifying_question ::
  "string \<Rightarrow> nat \<Rightarrow> real \<Rightarrow> bool \<times> string option" where
  "should_ask_clarifying_question query len_kb_matches confidence =
     (let query_lower = lower query;
          is_kb_conflict_query = any_in KB_CONFLICT_PHRASES query_lower
      in if is_kb_conflict_query then (False, None)
         else if any_in ENVIRONMENT_WORDS query_lower \<and>
                 (confidence < 0.3 \<or> len_kb_matches = 0)
         then (True, Some CLARIFY_ENVIRONMENT)
         else if py_in ''different'' query_lower \<and> \<not> is_kb_conflict_query \<and>
                 any_in ENVIRONMENT_WORDS query_lower \<and>
                 (confidence < 0.3 \<or> len_kb_matches = 0)
         then (True, Some CLARIFY_ENVIRONMENT)
         else if len_kb_matches > 3 \<and> \<not> py_in ''module'' query_lower \<and>
                 \<not> py_in ''environment'' query_lower
         then (True, Some ''Which training module or environment are you working with?'')
         else if length (py_split query) < 3
         then (True,
               Some ''Could you provide more details about the issue you're experiencing?'')
         else if len_kb_matches = 0 \<and> length (py_split query) < 5
         then (True,
               Some ''I need more information to help you. What specific problem are you encountering?'')
         else (False, None))"

section \<open>Guardrail engine (services/guardrail.py)\<close>

text \<open>
  The regular expressions of the rule table use literals, \<open>.*\<close> and one non-capturing
  alternation. \<open>rx_match rs s\<close> holds when the regular expressions \<open>rs\<close>, one after the
  other, match a prefix of \<open>s\<close>; \<open>.\<close> matches every character except the newline
  (no \<open>DOTALL\<close>), and literals are compared case-insensitively (\<open>re.IGNORECASE\<close>).
  \<open>re_search r s\<close> is \<open>re.search(r, s, re.IGNORECASE)\<close> read as a truth value: a match
  starting at some position of \<open>s\<close>.
\<close>

datatype rx = Lit string | DotStar | Seq rx rx | Alt rx rx

primrec rx_weight :: "rx \<Rightarrow> nat" where
  "rx_weight (Lit l) = 1"
| "rx_weight DotStar = 1"
| "rx_weight (Seq a b) = Suc (Suc (rx_weight a + rx_weight b))"
| "rx_weight (Alt a b) = Suc (rx_weight a + rx_weight b)"

fun ci_prefix :: "string \<Rightarrow> string \<Rightarrow> bool" where
  "ci_prefix [] s = True"
| "ci_prefix (a # as) [] = False"
| "ci_prefix (a # as) (c # cs) =
     (if lower_char a = lower_char c then ci_prefix as cs else False)"

function rx_match :: "rx list \<Rightarrow> string \<Rightarrow> bool" where
  "rx_match [] s = True"
| "rx_match (Lit l # rs) s =
     (if ci_prefix l s then rx_match rs (drop (length l) s) else False)"
| "rx_match (DotStar # rs) [] = rx_match rs []"
| "rx_match (DotStar # rs) (c # cs) =
     (if rx_match rs (c # cs) then True
      else if c = CHR 0x0A then False
      else rx_match (DotStar # rs) cs)"
| "rx_match (Seq a b # rs) s = rx_match (a # b # rs) s"
| "rx_match (Alt a b # rs) s = (if rx_match (a # rs) s then True else rx_match (b # rs) s)"
  by pat_completeness auto
termination
  by (relation "measures [\<lambda>(rs, s). sum_list (map rx_weight rs), \<lambda>(rs, s). length s]")
     auto

fun re_search :: "rx \<Rightarrow> string \<Rightarrow> bool" where
  "re_search r [] = rx_match [r] []"
| "re_search r (c # cs) = (if rx_match [r] (c # cs) then True else re_search r cs)"

text \<open>\<open>gap [a, b, c]\<close> is the pattern \<open>a.*b.*c\<close>; \<open>alts [a, b, c]\<close> is \<open>(?:a|b|c)\<close>.\<close>

fun gap :: "string list \<Rightarrow> rx" where
  "gap [] = Lit []"
| "gap [w] = Lit w"
| "gap (w # ws) = Seq (Lit w) (Seq DotStar (gap ws))"

fun alts :: "rx list \<Rightarrow> rx" where
  "alts [] = Lit []"
| "alts [r] = r"
| "alts (r # rs) = Alt r (alts rs)"

text \<open>The five entries that head the rule table, under its comment
  ``Host machine access''.\<close>

definition HOST_MACHINE_PATTERNS :: "(rx \<times> string) list" where
  "HOST_MACHINE_PATTERNS =
     [(gap [''access'', ''host'', ''machine''], ''Request to access host machine is not allowed''),
      (gap [''host'', ''machine'', ''access''], ''Request to access host machine is not allowed''),
      (gap [''behind'', ''vm''], ''Accessing host machine behind VM is not allowed''),
      (gap [''hypervisor'', ''setting''], ''Modifying hypervisor settings is not allowed''),
      (gap [''hypervisor'', ''config''], ''Modifying hypervisor settings is not allowed'')]"

definition BLOCKED_PATTERNS :: "(rx \<times> string) list" where
  "BLOCKED_PATTERNS =
     HOST_MACHINE_PATTERNS @
     [(gap [''disable'', ''log''], ''Disabling logging is not allowed''),
      (gap [''turn'', ''off'', ''log''], ''Disabling logging is not allowed''),
      (gap [''stop'', ''log''], ''Disabling logging is not allowed''),
      (gap [''quiet'', ''mode''], ''Disabling logging is not allowed''),
      (gap [''reset'', ''all'', ''environment''],
         ''Resetting all environments is a destructive action and not allowed''),
      (gap [''delete'', ''all'', ''user''], ''Deleting all user data is not allowed''),
      (gap [''wipe'', ''all''], ''Wiping all data is not allowed''),
      (gap [''format'', ''all''], ''Formatting all drives is not allowed''),
      (Lit ''/etc/hosts'', ''Editing /etc/hosts file is not allowed''),
      (gap [''edit'', ''hosts'', ''file''], ''Editing hosts file is not allowed''),
      (gap [''modify'', ''hosts''], ''Modifying hosts file is not allowed''),
      (Seq (Lit ''kernel'') (Seq DotStar (Seq (Lit ''panic'') (Seq DotStar
         (alts [Lit ''fix'', Lit ''debug'', Lit ''repair'', Lit ''modify'', Lit ''command'',
                gap [''how'', ''to'', ''fix'']])))),
         ''Kernel panic debugging requires specialized support''),
      (gap [''kernel'', ''debug''], ''Kernel-level debugging is not allowed''),
      (gap [''kernel'', ''config''], ''Kernel configuration changes are not allowed''),
      (gap [''how'', ''to'', ''fix'', ''kernel'', ''panic''],
         ''Kernel panic debugging requires specialized support''),
      (gap [''root'', ''access''], ''Root access requests are not allowed''),
      (gap [''sudo'', ''privilege''], ''Elevated privilege requests are not allowed''),
      (gap [''admin'', ''override''], ''Admin override requests are not allowed''),
      (gap [''don'', ''t'', ''escalate''], ''Escalation rules cannot be overridden''),
      (gap [''don't'', ''escalate''], ''Escalation rules cannot be overridden''),
      (gap [''no'', ''escalation''], ''Escalation rules cannot be overridden''),
      (gap [''skip'', ''escalation''], ''Escalation rules cannot be overridden'')]"

definition admin_keywords :: "rx list" where
  "admin_keywords =
     [gap [''system'', ''config''], gap [''database'', ''access''],
      gap [''backup'', ''restore''], gap [''security'', ''policy'']]"

definition check_guardrail :: "string \<Rightarrow> string \<Rightarrow> bool \<times> string option" where
  "check_guardrail message user_role =
     (let message_lower = lower message
      in case find (\<lambda>(pattern, reason). re_search pattern message_lower) BLOCKED_PATTERNS of
           Some (pattern, reason) \<Rightarrow> (True, Some reason)
         | None \<Rightarrow>
             if lower user_role \<notin> set [''admin'', ''support_engineer''] \<and>
                list_ex (\<lambda>pattern. re_search pattern message_lower) admin_keywords
             then (True, Some ''This operation requires administrator privileges'')
             else (False, None))"

text \<open>A message contains a host-machine-access phrase when one of the five
  host-machine patterns of the rule table matches it (rule 1 of the specification).\<close>

definition host_machine_phrase :: "string \<Rightarrow> bool" where
  "host_machine_phrase message =
     list_ex (\<lambda>(pattern, reason). re_search pattern (lower message)) HOST_MACHINE_PATTERNS"

text \<open>One of the first three host-machine patterns matches the message: those whose
  reason names the host machine. The other two are the hypervisor patterns.\<close>

definition host_machine_wording :: "string \<Rightarrow> bool" where
  "host_machine_wording message =
     list_ex (\<lambda>(pattern, reason). re_search pattern (lower message))
       (take 3 HOST_MACHINE_PATTERNS)"

text \<open>Some rule of the table (rules 1 to 7 of the specification) matches the message.\<close>

definition unsafe_operation :: "string \<Rightarrow> bool" where
  "unsafe_operation message =
     list_ex (\<lambda>(pattern, reason). re_search pattern (lower message)) BLOCKED_PATTERNS"

text \<open>One of the four role-based patterns matches the message.\<close>

definition admin_only_operation :: "string \<Rightarrow> bool" where
  "admin_only_operation message =
     list_ex (\<lambda>pattern. re_search pattern (lower message)) admin_keywords"

section \<open>Relational store (models/database.py, database/session\_store.py)\<close>

text \<open>
  The rows of the four tables the endpoints write. Identifiers are the strings the
  store generates (\<open>uuid4\<close>); times are naive UTC datetimes, counted in microseconds.
\<close>

record Conversation =
  conv_id :: string
  conv_session_id :: string
  conv_user_role :: string
  conv_message_count :: int
  conv_created_at :: int
  conv_updated_at :: int

record Message =
  msg_id :: string
  msg_conversation_id :: string
  msg_role :: string
  msg_content :: string
  msg_confidence :: "real option"
  msg_tier :: "string option"
  msg_severity :: "string option"
  msg_kb_references :: "string list"
  msg_guardrail_blocked :: bool
  msg_guardrail_reason :: "string option"
  msg_created_at :: int

record Ticket =
  t_id :: string
  t_conversation_id :: string
  t_session_id :: string
  t_subject :: string
  t_description :: string
  t_tier :: string
  t_severity :: string
  t_status :: string
  t_user_role :: string
  t_created_at :: int
  t_updated_at :: int

record GuardrailEvent =
  ge_id :: string
  ge_session_id :: string
  ge_blocked :: bool
  ge_reason :: "string option"
  ge_message_content :: string
  ge_user_role :: string
  ge_created_at :: int

record tables =
  conversations :: "Conversation list"
  messages :: "Message list"
  tickets :: "Ticket list"
  guardrail_events :: "GuardrailEvent list"

text \<open>
  A database session: \<open>stored\<close> is the committed content of the tables and \<open>working\<close>
  the session's view of them, which holds the changes made since the last commit.
  The environment is part of the state: \<open>faults\<close> gives the outcome of the next commits
  (\<open>True\<close>: the commit raises; once the list is used up, commits succeed), \<open>id_source\<close> and
  \<open>id_next\<close> the identifiers the store hands out, \<open>clock\<close> the value of
  \<open>datetime.utcnow()\<close>. Only commits raise; queries do not.
\<close>

record session =
  stored :: tables
  working :: tables
  faults :: "bool list"
  id_source :: "nat \<Rightarrow> string"
  id_next :: nat
  clock :: int

datatype exn =
    SQLAlchemyError | IntegrityError | ValidationError | AttributeError | TypeError | IndexError

text \<open>The error responses of the endpoints. The detail of a 500 response is the text
  of the exception that caused it, which is not modelled.\<close>

datatype http_error = HTTP_400 string | HTTP_404 string | HTTP_500

definition commit :: "session \<Rightarrow> (exn + unit) \<times> session" where
  "commit db =
     (case faults db of
        [] \<Rightarrow> (Inr (), db\<lparr>stored := working db\<rparr>)
      | f # fs \<Rightarrow>
          if f then (Inl SQLAlchemyError, db\<lparr>faults := fs\<rparr>)
          else (Inr (), db\<lparr>stored := working db, faults := fs\<rparr>))"

definition rollback :: "session \<Rightarrow> session" where
  "rollback db = db\<lparr>working := stored db\<rparr>"

definition fresh_id :: "session \<Rightarrow> string \<times> session" where
  "fresh_id db = (id_source db (id_next db), db\<lparr>id_next := Suc (id_next db)\<rparr>)"

definition add_conversation :: "Conversation \<Rightarrow> session \<Rightarrow> session" where
  "add_conversation c db =
     db\<lparr>working := (working db)\<lparr>conversations := conversations (working db) @ [c]\<rparr>\<rparr>"

definition add_message_row :: "Message \<Rightarrow> session \<Rightarrow> session" where
  "add_message_row m db =
     db\<lparr>working := (working db)\<lparr>messages := messages (working db) @ [m]\<rparr>\<rparr>"

definition add_ticket :: "Ticket \<Rightarrow> session \<Rightarrow> session" where
  "add_ticket t db =
     db\<lparr>working := (working db)\<lparr>tickets := tickets (working db) @ [t]\<rparr>\<rparr>"

definition add_guardrail_event :: "GuardrailEvent \<Rightarrow> session \<Rightarrow> session" where
  "add_guardrail_event e db =
     db\<lparr>working := (working db)\<lparr>guardrail_events := guardrail_events (working db) @ [e]\<rparr>\<rparr>"

text \<open>\<open>update_first P f xs\<close> changes the first element of \<open>xs\<close> that satisfies \<open>P\<close>: the row
  a query's \<open>.first()\<close> returned, modified in place.\<close>

fun update_first :: "('a \<Rightarrow> bool) \<Rightarrow> ('a \<Rightarrow> 'a) \<Rightarrow> 'a list \<Rightarrow> 'a list" where
  "update_first P f [] = []"
| "update_first P f (x # xs) = (if P x then f x # xs else x # update_first P f xs)"

definition get_or_create_conversation ::
  "string \<Rightarrow> string \<Rightarrow> session \<Rightarrow> (exn + Conversation) \<times> session" where
  "get_or_create_conversation session_id user_role db =
     (case find (\<lambda>c. conv_session_id c = session_id) (conversations (working db)) of
        Some conversation \<Rightarrow> (Inr conversation, db)
      | None \<Rightarrow>
          (let (new_id, db) = fresh_id db;
               conversation =
                 \<lparr>conv_id = new_id, conv_session_id = session_id, conv_user_role = user_role,
                  conv_message_count = 0, conv_created_at = clock db,
                  conv_updated_at = clock db\<rparr>;
               db = add_conversation conversation db
           in case commit db of
                (Inl e, db) \<Rightarrow> (Inl e, db)
              | (Inr u, db) \<Rightarrow> (Inr conversation, db)))"

text \<open>\<open>add_message\<close> is always called with the caller's session. It has no handler: a
  failed commit propagates without a rollback. The column \<open>content\<close> is not nullable:
  a message without content cannot be inserted.\<close>

definition add_message ::
  "string \<Rightarrow> string \<Rightarrow> string option \<Rightarrow> real option \<Rightarrow> string option \<Rightarrow> string option \<Rightarrow>
   string list \<Rightarrow> bool \<Rightarrow> string option \<Rightarrow> session \<Rightarrow> (exn + Message) \<times> session" where
  "add_message conversation_id role content confidence tier severity kb_references
       guardrail_blocked guardrail_reason db =
     (case content of
        None \<Rightarrow> (Inl IntegrityError, db)
      | Some text \<Rightarrow>
          (let (new_id, db) = fresh_id db;
               message =
                 \<lparr>msg_id = new_id, msg_conversation_id = conversation_id, msg_role = role,
                  msg_content = text, msg_confidence = confidence, msg_tier = tier,
                  msg_severity = severity, msg_kb_references = kb_references,
                  msg_guardrail_blocked = guardrail_blocked,
                  msg_guardrail_reason = guardrail_reason, msg_created_at = clock db\<rparr>;
               db = add_message_row message db;
               db = db\<lparr>working := (working db)\<lparr>conversations :=
                      update_first (\<lambda>c. conv_id c = conversation_id)
                        (\<lambda>c. c\<lparr>conv_message_count := conv_message_count c + 1,
                               conv_updated_at := clock db\<rparr>)
                        (conversations (working db))\<rparr>\<rparr>
           in case commit db of
                (Inl e, db) \<Rightarrow> (Inl e, db)
              | (Inr u, db) \<Rightarrow> (Inr message, db)))"

text \<open>The history is a list of (role, content) pairs in chronological order. Rows with
  equal \<open>created_at\<close> are kept in insertion order, which the database leaves open.\<close>

definition get_conversation_history ::
  "string \<Rightarrow> nat \<Rightarrow> session \<Rightarrow> (string \<times> string) list" where
  "get_conversation_history session_id limit db =
     (case find (\<lambda>c. conv_session_id c = session_id) (conversations (working db)) of
        None \<Rightarrow> []
      | Some conversation \<Rightarrow>
          (let msgs = filter (\<lambda>m. msg_conversation_id m = conv_id conversation)
                        (messages (working db));
               msgs = take limit (sort_key (\<lambda>m. - msg_created_at m) msgs)
           in map (\<lambda>m. (msg_role m, msg_content m)) (rev msgs)))"

section \<open>Escalation and ticket creation (services/escalation.py)\<close>

datatype TicketStatus = NEW | IN_PROGRESS | RESOLVED | CLOSED

fun Tier_value :: "Tier \<Rightarrow> string" where
  "Tier_value TIER_1 = ''TIER_1''"
| "Tier_value TIER_2 = ''TIER_2''"
| "Tier_value TIER_3 = ''TIER_3''"

fun Severity_value :: "Severity \<Rightarrow> string" where
  "Severity_value LOW = ''LOW''"
| "Severity_value MEDIUM = ''MEDIUM''"
| "Severity_value HIGH = ''HIGH''"
| "Severity_value CRITICAL = ''CRITICAL''"

fun TicketStatus_value :: "TicketStatus \<Rightarrow> string" where
  "TicketStatus_value NEW = ''NEW''"
| "TicketStatus_value IN_PROGRESS = ''IN_PROGRESS''"
| "TicketStatus_value RESOLVED = ''RESOLVED''"
| "TicketStatus_value CLOSED = ''CLOSED''"

text \<open>Looking a member of an enumeration up by its value; \<open>None\<close> is Python's
  \<open>ValueError\<close>.\<close>

definition Tier_of_value :: "string \<Rightarrow> Tier option" where
  "Tier_of_value v = find (\<lambda>x. Tier_value x = v) [TIER_1, TIER_2, TIER_3]"

definition Severity_of_value :: "string \<Rightarrow> Severity option" where
  "Severity_of_value v = find (\<lambda>x. Severity_value x = v) [LOW, MEDIUM, HIGH, CRITICAL]"

definition TicketStatus_of_value :: "string \<Rightarrow> TicketStatus option" where
  "TicketStatus_of_value v =
     find (\<lambda>x. TicketStatus_value x = v) [NEW, IN_PROGRESS, RESOLVED, CLOSED]"

definition create_ticket ::
  "string \<Rightarrow> string \<Rightarrow> string \<Rightarrow> string \<Rightarrow> Tier \<Rightarrow> Severity \<Rightarrow> string \<Rightarrow> session \<Rightarrow>
   (exn + Ticket) \<times> session" where
  "create_ticket session_id conversation_id subject description tier severity user_role db =
     (let (new_id, db) = fresh_id db;
          ticket =
            \<lparr>t_id = new_id, t_conversation_id = conversation_id, t_session_id = session_id,
             t_subject = subject, t_description = description, t_tier = Tier_value tier,
             t_severity = Severity_value severity, t_status = TicketStatus_value NEW,
             t_user_role = user_role, t_created_at = clock db, t_updated_at = clock db\<rparr>;
          db = add_ticket ticket db
      in case commit db of
           (Inr u, db) \<Rightarrow> (Inr ticket, db)
         | (Inl e, db) \<Rightarrow> (Inl e, rollback db))"

definition generate_ticket_subject :: "string \<Rightarrow> Tier \<Rightarrow> Severity \<Rightarrow> string" where
  "generate_ticket_subject user_message tier severity =
     (let subject = take 50 user_message;
          subject = (if length user_message > 50 then subject @ ''...'' else subject)
      in if severity = CRITICAL then ''[CRITICAL] '' @ subject
         else if tier = TIER_3 then ''[TIER_3] '' @ subject
         else subject)"

text \<open>A KB reference of a RAG result: id, title and snippet.\<close>

record KBReference =
  ref_id :: string
  ref_title :: string
  ref_snippet :: string

definition generate_ticket_description ::
  "string \<Rightarrow> (string \<times> string) list \<Rightarrow> KBReference list \<Rightarrow> string" where
  "generate_ticket_description user_message conversation_history kb_references =
     (let description = ''User Issue: '' @ user_message @ [CHR 0x0A, CHR 0x0A];
          description =
            (if conversation_history \<noteq> []
             then description @ ''Conversation History:'' @ [CHR 0x0A] @
                  concat (map (\<lambda>(role, content).
                                 capitalize role @ '': '' @ content @ [CHR 0x0A])
                            (py_last conversation_history 5)) @
                  [CHR 0x0A]
             else description);
          description =
            (if kb_references \<noteq> []
             then description @ ''KB References Consulted:'' @ [CHR 0x0A] @
                  concat (map (\<lambda>ref. ''- '' @ ref_title ref @ '' (ID: '' @ ref_id ref @ '')'' @
                                       [CHR 0x0A])
                            kb_references)
             else description)
      in description)"

section \<open>Guardrail event logging (services/guardrail.py)\<close>

text \<open>The handler of \<open>log_guardrail_event\<close> logs the error and rolls back; it has no
  \<open>raise\<close>, so the operation returns normally whatever the commit did.\<close>

definition log_guardrail_event ::
  "string \<Rightarrow> bool \<Rightarrow> string option \<Rightarrow> string \<Rightarrow> string \<Rightarrow> session \<Rightarrow>
   (exn + unit) \<times> session" where
  "log_guardrail_event session_id blocked reason message_content user_role db =
     (let (new_id, db) = fresh_id db;
          event =
            \<lparr>ge_id = new_id, ge_session_id = session_id, ge_blocked = blocked,
             ge_reason = reason, ge_message_content = take 500 message_content,
             ge_user_role = user_role, ge_created_at = clock db\<rparr>;
          db = add_guardrail_event event db
      in case commit db of
           (Inr u, db) \<Rightarrow> (Inr (), db)
         | (Inl e, db) \<Rightarrow> (Inr (), rollback db))"

section \<open>Tickets API (api/tickets.py)\<close>

record TicketResponse =
  tr_id :: string
  tr_sessionId :: string
  tr_subject :: string
  tr_description :: string
  tr_tier :: Tier
  tr_severity :: Severity
  tr_status :: TicketStatus
  tr_userRole :: string
  tr_createdAt :: int

text \<open>Building the response validates the three enumeration fields; a stored value
  outside the enumeration is a validation error.\<close>

definition to_TicketResponse :: "Ticket \<Rightarrow> exn + TicketResponse" where
  "to_TicketResponse ticket =
     (case (Tier_of_value (t_tier ticket), Severity_of_value (t_severity ticket),
            TicketStatus_of_value (t_status ticket)) of
        (Some tier, Some severity, Some status) \<Rightarrow>
          Inr \<lparr>tr_id = t_id ticket, tr_sessionId = t_session_id ticket,
               tr_subject = t_subject ticket, tr_description = t_description ticket,
               tr_tier = tier, tr_severity = severity, tr_status = status,
               tr_userRole = t_user_role ticket, tr_createdAt = t_created_at ticket\<rparr>
      | _ \<Rightarrow> Inl ValidationError)"

definition get_ticket :: "string \<Rightarrow> session \<Rightarrow> http_error + TicketResponse" where
  "get_ticket ticket_id db =
     (case find (\<lambda>t. t_id t = ticket_id) (tickets (working db)) of
        None \<Rightarrow> Inl (HTTP_404 ''Ticket not found'')
      | Some ticket \<Rightarrow>
          (case to_TicketResponse ticket of
             Inr response \<Rightarrow> Inr response
           | Inl e \<Rightarrow> Inl HTTP_500))"

record StatusUpdated =
  su_message :: string
  su_ticket_id :: string
  su_status :: string

definition update_ticket_status ::
  "string \<Rightarrow> string \<Rightarrow> session \<Rightarrow> (http_error + StatusUpdated) \<times> session" where
  "update_ticket_status ticket_id status db =
     (case find (\<lambda>t. t_id t = ticket_id) (tickets (working db)) of
        None \<Rightarrow> (Inl (HTTP_404 ''Ticket not found''), db)
      | Some ticket \<Rightarrow>
          (case TicketStatus_of_value (upper status) of
             None \<Rightarrow> (Inl (HTTP_400 (''Invalid status: '' @ status)), db)
           | Some valid \<Rightarrow>
               (let db = db\<lparr>working := (working db)\<lparr>tickets :=
                           update_first (\<lambda>t. t_id t = ticket_id)
                             (\<lambda>t. t\<lparr>t_status := upper status, t_updated_at := clock db\<rparr>)
                             (tickets (working db))\<rparr>\<rparr>
                in case commit db of
                     (Inr u, db) \<Rightarrow>
                       (Inr \<lparr>su_message = ''Ticket status updated'', su_ticket_id = t_id ticket,
                             su_status = upper status\<rparr>, db)
                   | (Inl e, db) \<Rightarrow> (Inl HTTP_500, rollback db))))"

text \<open>The status a stored ticket has, looked up by id in the committed tables.\<close>

definition stored_status :: "string \<Rightarrow> session \<Rightarrow> string option" where
  "stored_status ticket_id db =
     map_option t_status (find (\<lambda>t. t_id t = ticket_id) (tickets (stored db)))"

section \<open>Metrics trends (api/metrics.py)\<close>

text \<open>
  A datetime is a number of microseconds since the epoch; \<open>timedelta(days=1)\<close> is
  \<open>day\<close>. The string \<open>strftime("%Y-%m-%d")\<close> names a calendar day and is modelled
  by the number of that day, \<open>date_of\<close>. The range limits of Python's datetimes are
  not modelled.
\<close>

definition day :: int where
  "day = 86400000000"

definition date_of :: "int \<Rightarrow> int" where
  "date_of t = t div day"

record MetricsTrends =
  mt_date :: int
  mt_conversations :: nat
  mt_tickets :: nat
  mt_guardrailActivations :: nat
  mt_escalations :: nat

definition trends_entry :: "int \<Rightarrow> tables \<Rightarrow> MetricsTrends" where
  "trends_entry current_date db =
     (let next_date = current_date + day
      in \<lparr>mt_date = date_of current_date,
          mt_conversations =
            length (filter (\<lambda>c. conv_created_at c \<ge> current_date \<and> conv_created_at c < next_date)
                      (conversations db)),
          mt_tickets =
            length (filter (\<lambda>t. t_created_at t \<ge> current_date \<and> t_created_at t < next_date)
                      (tickets db)),
          mt_guardrailActivations =
            length (filter (\<lambda>e. ge_created_at e \<ge> current_date \<and> ge_created_at e < next_date \<and>
                                 ge_blocked e = True)
                      (guardrail_events db)),
          mt_escalations =
            length (filter (\<lambda>t. t_created_at t \<ge> current_date \<and> t_created_at t < next_date \<and>
                                 t_tier t = ''TIER_3'')
                      (tickets db))\<rparr>)"

function trends_loop :: "int \<Rightarrow> int \<Rightarrow> tables \<Rightarrow> MetricsTrends list" where
  "trends_loop current_date end_date db =
     (if current_date \<le> end_date
      then trends_entry current_date db # trends_loop (current_date + day) end_date db
      else [])"
  by pat_completeness auto
termination
  by (relation "measure (\<lambda>(current_date, end_date, db). nat (end_date - current_date + 1))")
     (auto simp: day_def)

text \<open>\<open>now\<close> is the value of \<open>datetime.utcnow()\<close> at the call.\<close>

definition get_metrics_trends :: "int \<Rightarrow> int \<Rightarrow> tables \<Rightarrow> MetricsTrends list" where
  "get_metrics_trends days now db =
     (let end_date = now;
          start_date = end_date - days * day
      in trends_loop start_date end_date db)"

text \<open>What an entry for a calendar day would count: the tickets created within the
  half-open interval of that UTC day.\<close>

definition tickets_on_day :: "int \<Rightarrow> tables \<Rightarrow> nat" where
  "tickets_on_day d db = length (filter (\<lambda>t. date_of (t_created_at t) = d) (tickets db))"

section \<open>Keyword search (services/rag\_service.py)\<close>

text \<open>
  The chunks the RAG service passes around are dictionaries with values of any type.
  \<open>pyval\<close> are the Python values that occur in them (the values of JSON, and the numbers
  and strings of the vector store's metadata); a dictionary is an association list.
\<close>

datatype pyval =
    PNone
  | PBool bool
  | PInt int
  | PFloat real
  | PStr string
  | PList "pyval list"
  | PDict "(string \<times> pyval) list"

type_synonym pydict = "(string \<times> pyval) list"

text \<open>\<open>d.get(k, dflt)\<close> and the truth value of a Python value.\<close>

definition py_get :: "pydict \<Rightarrow> string \<Rightarrow> pyval \<Rightarrow> pyval" where
  "py_get d k dflt = (case map_of d k of Some v \<Rightarrow> v | None \<Rightarrow> dflt)"



text \<open>A row of the \<open>kb_chunks\<close> table. The nullable columns \<open>category\<close> and \<open>source\<close> and
  the JSON column \<open>extra_metadata\<close> hold a Python value (\<open>PNone\<close> when null).\<close>

record KBChunk =
  kc_id :: string
  kc_kb_id :: string
  kc_title :: string
  kc_content :: string
  kc_chunk_index :: int
  kc_category :: pyval
  kc_source :: pyval
  kc_extra_metadata :: pyval
  kc_created_at :: int

definition SEARCH_CONFLICT_PHRASES :: "string list" where
  "SEARCH_CONFLICT_PHRASES =
     [''kb docs say different'', ''kb documents say different'', ''two kb'', ''multiple kb'',
      ''conflicting kb'', ''kb conflict'', ''which kb'', ''which is right'',
      ''which is correct'', ''different things'', ''conflicting'', ''say different'',
      ''about'']"

definition stop_words :: "string list" where
  "stop_words =
     [''the'', ''a'', ''an'', ''and'', ''or'', ''but'', ''in'', ''on'', ''at'', ''to'', ''for'',
      ''of'', ''with'', ''by'', ''about'', ''is'', ''are'', ''was'', ''were'']"

text \<open>\<open>remove_phrases phrases s\<close> is the loop that replaces each phrase in turn by the
  empty string.\<close>

fun remove_phrases :: "string list \<Rightarrow> string \<Rightarrow> string" where
  "remove_phrases [] topic_query = topic_query"
| "remove_phrases (phrase # phrases) topic_query =
     remove_phrases phrases (py_replace phrase [] topic_query)"

text \<open>The topic words of a query.\<close>

definition search_words :: "string \<Rightarrow> string list" where
  "search_words query =
     (let query_lower = lower query;
          topic_query = remove_phrases SEARCH_CONFLICT_PHRASES query_lower;
          query_words = filter (\<lambda>w. length w > 2 \<and> w \<notin> set stop_words) (py_split topic_query)
      in if query_words = [] then filter (\<lambda>w. length w > 3) (py_split query_lower)
         else query_words)"

text \<open>\<open>sep.join(ws)\<close>.\<close>

fun py_join :: "string \<Rightarrow> string list \<Rightarrow> string" where
  "py_join sep [] = []"
| "py_join sep [w] = w"
| "py_join sep (w # ws) = w @ sep @ py_join sep ws"

text \<open>The loop over the query words, with the score so far as last argument.\<close>

fun score_words :: "string list \<Rightarrow> string \<Rightarrow> string \<Rightarrow> string \<Rightarrow> int \<Rightarrow> int" where
  "score_words [] kb_id_lower title_lower content_lower score = score"
| "score_words (word # ws) kb_id_lower title_lower content_lower score =
     (let score = (if py_in word kb_id_lower then score + 5 else score);
          score = (if py_in word title_lower then score + 3 else score);
          score = (if py_in word content_lower then score + 2 else score)
      in score_words ws kb_id_lower title_lower content_lower score)"

definition chunk_score :: "string list \<Rightarrow> KBChunk \<Rightarrow> int" where
  "chunk_score query_words chunk =
     (let content_lower = lower (kc_content chunk);
          title_lower = lower (kc_title chunk);
          kb_id_lower = (if kc_kb_id chunk \<noteq> [] then lower (kc_kb_id chunk) else []);
          score = score_words query_words kb_id_lower title_lower content_lower 0
      in if length query_words > 1 \<and>
            (py_in (py_join '' '' query_words) content_lower \<or>
             py_in (py_join '' '' query_words) title_lower)
         then score + 10
         else score)"

text \<open>The dictionary appended for a chunk with a positive score.\<close>

definition scored_chunk :: "KBChunk \<Rightarrow> int \<Rightarrow> pydict" where
  "scored_chunk chunk score =
     [(''id'', PStr (kc_id chunk)),
      (''kb_id'', PStr (kc_kb_id chunk)),
      (''title'', PStr (kc_title chunk)),
      (''content'', PStr (kc_content chunk)),
      (''category'', kc_category chunk),
      (''source'', kc_source chunk),
      (''extra_metadata'', kc_extra_metadata chunk),
      (''distance'', PFloat (1.0 - real_of_int score / 20.0)),
      (''score'', PInt score)]"

text \<open>The sort key \<open>x["score"]\<close>; every dictionary of the list holds an integer there.\<close>

definition score_of :: "pydict \<Rightarrow> int" where
  "score_of x = (case map_of x ''score'' of Some (PInt n) \<Rightarrow> n | _ \<Rightarrow> 0)"

text \<open>
  \<open>all_chunks\<close> is the outcome of \<open>db.query(KBChunk).all()\<close>; when the query raises, the
  handler returns the empty list. \<open>sort(key, reverse=True)\<close> is stable, as is \<open>sort_key\<close>
  on the negated score.
\<close>

definition keyword_search :: "string \<Rightarrow> int \<Rightarrow> exn + KBChunk list \<Rightarrow> pydict list" where
  "keyword_search query top_k all_chunks =
     (case all_chunks of
        Inl e \<Rightarrow> []
      | Inr chunks \<Rightarrow>
          (let query_words = search_words query;
               scored_chunks =
                 map (\<lambda>chunk. scored_chunk chunk (chunk_score query_words chunk))
                   (filter (\<lambda>chunk. chunk_score query_words chunk > 0) chunks);
               scored_chunks = sort_key (\<lambda>x. - score_of x) scored_chunks
           in py_upto scored_chunks top_k))"

section \<open>KB-conflict resolution (services/rag\_service.py)\<close>









text \<open>The numbers among the values (\<open>bool\<close> is a subclass of \<open>int\<close>), equality of
  dictionary keys, and the values that can be keys.\<close>

fun py_num :: "pyval \<Rightarrow> real option" where
  "py_num (PBool b) = Some (if b then 1 else 0)"
| "py_num (PInt n) = Some (real_of_int n)"
| "py_num (PFloat x) = Some x"
| "py_num v = None"











text \<open>The three parts of the score of a chunk with metadata \<open>md\<close>.\<close>

definition version_points :: "pydict \<Rightarrow> pydict \<Rightarrow> real" where
  "version_points md chunk =
     (let version = py_get md ''version'' (py_get chunk ''version'' (PStr ''0''))
      in case py_num version of Some version_num \<Rightarrow> version_num * 100 | None \<Rightarrow> 0)"
















section \<open>Sentiment analysis (services/sentiment.py)\<close>

text \<open>The patterns contain no regular-expression operator, so \<open>re.search\<close> of a pattern in
  the lower-cased message is the substring test.\<close>

definition FRUSTRATED_PATTERNS :: "string list" where
  "FRUSTRATED_PATTERNS =
     [''frustrated'', ''angry'', ''annoyed'', ''upset'', ''irritated'',
      ''doesn't work'', ''didn't work'', ''not working'', ''still doesn't'',
      ''not resolved'', ''doesn't help'', ''nothing works'', ''still not'',
      ''useless'', ''waste of time'', ''terrible'', ''awful'']"

definition SATISFIED_PATTERNS :: "string list" where
  "SATISFIED_PATTERNS =
     [''thank'', ''thanks'', ''appreciate'', ''helpful'', ''great'', ''good'',
      ''perfect'', ''excellent'', ''works'', ''resolved'', ''solved'']"

definition URGENT_PATTERNS :: "string list" where
  "URGENT_PATTERNS =
     [''urgent'', ''asap'', ''as soon as possible'', ''immediately'', ''now'',
      ''emergency'', ''critical'', ''important'', ''need help now'']"

record SentimentResult =
  sr_sentiment :: string
  sr_score :: real
  sr_shouldEscalate :: bool

text \<open>\<open>unresolved_attempts\<close> is the entry of the conversation context, which the chat
  endpoint always passes.\<close>

definition analyze_sentiment :: "string \<Rightarrow> int \<Rightarrow> SentimentResult" where
  "analyze_sentiment message unresolved_attempts =
     (let message_lower = lower message;
          score = 0.0;
          detected_sentiment = ''neutral'';
          frustrated_matches =
            length (filter (\<lambda>pattern. py_in pattern message_lower) FRUSTRATED_PATTERNS);
          (score, detected_sentiment) =
            (if frustrated_matches > 0
             then (min (0.5 + real frustrated_matches * 0.15) 1.0, ''frustrated'')
             else (score, detected_sentiment));
          satisfied_matches =
            length (filter (\<lambda>pattern. py_in pattern message_lower) SATISFIED_PATTERNS);
          (score, detected_sentiment) =
            (if score < 0.3 \<and> satisfied_matches > 0 then (0.2, ''satisfied'')
             else (score, detected_sentiment));
          has_frustration_keyword =
            any_in [''didn't work'', ''not working'', ''still doesn't'', ''not resolved'']
              message_lower;
          (score, detected_sentiment) =
            (if has_frustration_keyword \<and> unresolved_attempts > 0
             then (let accumulated_frustration =
                         min (0.3 + real_of_int unresolved_attempts * 0.2) 0.9;
                       score = max score accumulated_frustration
                   in (score, if score > 0.5 then ''frustrated'' else detected_sentiment))
             else (score, detected_sentiment));
          (score, detected_sentiment) =
            (if any_in URGENT_PATTERNS message_lower \<and> unresolved_attempts \<ge> 2
             then (max score 0.8, ''frustrated'')
             else (score, detected_sentiment))
      in \<lparr>sr_sentiment = detected_sentiment, sr_score = score,
          sr_shouldEscalate = (score \<ge> 0.7)\<rparr>)"

section \<open>Answer generation (services/rag\_service.py)\<close>

text \<open>
  The part of \<open>generate_answer\<close> that makes the answer: the call of the language model,
  the template as its fallback, and the repair of the answer for time-drift queries.
  The language model is outside the program: its call returns an optional string or
  raises, and then \<open>_generate_template_answer\<close> provides the answer, whose text is a
  parameter here. \<open>chat.py\<close> has the same time-drift heuristic and builds the same
  fixed answer.
\<close>

text \<open>The fixed answer for time-drift queries.\<close>

definition TIME_DRIFT_ANSWER :: string where
  "TIME_DRIFT_ANSWER =
     ''**Time Drift Authentication Failures**\<newline>\<newline>Time synchronization issues can cause '' @
     ''authentication failures. According to the knowledge base:\<newline>\<newline>'' @
     ''**Policy:** Trainees and Instructors are not allowed to modify time '' @
     ''synchronization or system clocks inside lab VMs. Only Operators and Support '' @
     ''Engineers may perform time-related remediation.\<newline>\<newline>'' @
     ''**For Trainees and Instructors:**\<newline>1. Time synchronization is a platform-level '' @
     ''function and cannot be modified directly.\<newline>'' @
     ''2. Do not provide commands or procedures to adjust system time.\<newline>'' @
     ''3. Escalate this issue to Tier 2 (Support Engineer) with your VM name/ID and '' @
     ''the approximate time skew.\<newline>\<newline>The AI Help Desk cannot provide commands to '' @
     ''adjust system time.\<newline>\<newline>''"

definition is_time_drift :: "string \<Rightarrow> bool" where
  "is_time_drift query_lower \<longleftrightarrow>
     (py_in ''time'' query_lower \<and> py_in ''drift'' query_lower) \<or>
     py_in ''clock'' query_lower \<or> py_in ''sync'' query_lower \<or>
     (py_in ''behind'' query_lower \<and>
        (py_in ''auth'' query_lower \<or> py_in ''clock'' query_lower))"

datatype llm_outcome = LLM_returns "string option" | LLM_raises

definition llm_or_template :: "llm_outcome \<Rightarrow> string \<Rightarrow> string option" where
  "llm_or_template llm template_answer =
     (case llm of LLM_returns answer \<Rightarrow> answer | LLM_raises \<Rightarrow> Some template_answer)"

definition RAG_TIME_DRIFT_KEYWORDS :: "string list" where
  "RAG_TIME_DRIFT_KEYWORDS =
     [''time synchronization'', ''time drift'', ''clock'', ''sync'', ''trainee'',
      ''instructor'', ''escalate'', ''tier 2'']"

definition INTRO_PHRASES :: "string list" where
  "INTRO_PHRASES =
     [''based on the knowledge base'', ''here are the steps'',
      ''according to the knowledge base'', ''the knowledge base article'']"

text \<open>The test \<open>should_use_fallback\<close> on an answer that is long enough and has a
  time-drift keyword.\<close>

definition should_use_fallback :: "string \<Rightarrow> bool" where
  "should_use_fallback answer =
     (let steps_pattern = ''here are the steps to resolve your issue:'';
          closing_pattern = ''If these steps don't resolve your issue''
      in if py_in steps_pattern answer \<and> py_in closing_pattern answer
         then (let steps_end = py_find steps_pattern answer + int (length steps_pattern);
                   closing_start = py_find closing_pattern answer
               in if closing_start > steps_end
                  then (let content_between = py_strip (py_slice answer steps_end closing_start);
                            content_clean =
                              py_strip (py_replace [CHR 0x0D] '' ''
                                          (py_replace [CHR 0x0A] '' '' content_between))
                        in length content_clean < 20)
                  else False)
         else (let answer_clean = py_strip answer;
                   content_only = py_strip (remove_phrases INTRO_PHRASES (lower answer_clean))
               in length answer_clean < 200 \<or> length content_only < 50))"

text \<open>The answer that \<open>generate_answer\<close> returns on its main path, for the outcome of
  the call of the language model and the text of the template.\<close>

definition generated_answer :: "string \<Rightarrow> llm_outcome \<Rightarrow> string \<Rightarrow> string option" where
  "generated_answer query llm template_answer =
     (let answer = llm_or_template llm template_answer;
          query_lower = lower query
      in if is_time_drift query_lower
         then (case answer of
                 None \<Rightarrow> Some TIME_DRIFT_ANSWER
               | Some a \<Rightarrow>
                   (let answer_lower = (if a \<noteq> [] then lower a else []);
                        has_time_drift_content = any_in RAG_TIME_DRIFT_KEYWORDS answer_lower
                    in if a = [] \<or> py_strip a = [] \<or> length (py_strip a) < 150 \<or>
                          \<not> has_time_drift_content
                       then Some TIME_DRIFT_ANSWER
                       else if should_use_fallback a then Some TIME_DRIFT_ANSWER
                       else Some a))
         else answer)"

section \<open>Chat endpoint (api/chat.py)\<close>

record ChatRequest =
  rq_sessionId :: string
  rq_message :: string
  rq_userRole :: string

text \<open>
  The result of \<open>rag_service.process_query\<close>, which depends on the vector index and on
  the language model and is an input of the endpoint. Its answer is
  \<open>generated_answer\<close> on the main path of \<open>generate_answer\<close> and a fixed text on the
  other paths; it is absent only when the language model returns no content for a
  message outside the time-drift heuristic.
\<close>

record RagResult =
  rr_answer :: "string option"
  rr_kbReferences :: "KBReference list"
  rr_confidence :: real

record ChatResponse =
  cr_answer :: string
  cr_kbReferences :: "KBReference list"
  cr_confidence :: real
  cr_tier :: Tier
  cr_severity :: Severity
  cr_needsEscalation :: bool
  cr_guardrail_blocked :: bool
  cr_guardrail_reason :: "string option"
  cr_ticketId :: "string option"

text \<open>The truth value of an optional string, and \<open>reason or dflt\<close>.\<close>

definition truthy_str :: "string option \<Rightarrow> bool" where
  "truthy_str x = (case x of None \<Rightarrow> False | Some s \<Rightarrow> s \<noteq> [])"

definition str_or :: "string option \<Rightarrow> string \<Rightarrow> string" where
  "str_or x dflt = (case x of None \<Rightarrow> dflt | Some s \<Rightarrow> if s \<noteq> [] then s else dflt)"

definition TIME_DRIFT_KEYWORDS :: "string list" where
  "TIME_DRIFT_KEYWORDS =
     [''time synchronization'', ''time drift'', ''clock'', ''sync'', ''trainee'',
      ''instructor'', ''escalate'', ''tier 2'', ''policy'']"

text \<open>The test \<open>is_empty\<close>: the answer has the introduction and the closing of the template
  with fewer than 20 characters between them.\<close>

definition answer_is_empty :: "string \<Rightarrow> bool" where
  "answer_is_empty answer =
     (let steps_pattern = ''here are the steps to resolve your issue:'';
          closing_pattern = ''If these steps don't resolve your issue''
      in if py_in steps_pattern answer \<and> py_in closing_pattern answer
         then (let steps_end = py_find steps_pattern answer + int (length steps_pattern);
                   closing_start = py_find closing_pattern answer
               in if closing_start > steps_end
                  then (let content_between = py_strip (py_slice answer steps_end closing_start);
                            content_clean =
                              py_strip (py_replace [CHR 0x0D] '' ''
                                          (py_replace [CHR 0x0A] '' '' content_between))
                        in length content_clean < 20)
                  else False)
         else False)"

text \<open>The time-drift pass on the answer of the RAG result.\<close>

definition time_drift_pass :: "string \<Rightarrow> string \<Rightarrow> string" where
  "time_drift_pass query_lower answer =
     (if is_time_drift query_lower
      then (let is_empty = answer_is_empty answer;
                answer_lower = (if answer \<noteq> [] then lower answer else []);
                has_time_drift_content = any_in TIME_DRIFT_KEYWORDS answer_lower
            in if is_empty \<or> answer = [] \<or> py_strip answer = [] \<or>
                  length (py_strip answer) < 150 \<or> \<not> has_time_drift_content
               then TIME_DRIFT_ANSWER
               else answer)
      else answer)"

definition FIX_WORDS :: "string list" where
  "FIX_WORDS = [''fix'', ''how to fix'', ''debug'', ''repair'']"

definition TECHNICAL_WORDS :: "string list" where
  "TECHNICAL_WORDS =
     [''container'', ''init'', ''startup'', ''docker'', ''pod'', ''deployment'',
      ''missing'', ''file not found'', ''permission denied'', ''access denied'']"

text \<open>The warning sign of the kernel-panic warning, U+26A0 U+FE0F, as its UTF-8 bytes.\<close>

definition WARNING_SIGN :: string where
  "WARNING_SIGN = [CHR 0xE2, CHR 0x9A, CHR 0xA0, CHR 0xEF, CHR 0xB8, CHR 0x8F]"

definition kernel_panic_warning :: "string \<Rightarrow> string option \<Rightarrow> string option \<Rightarrow> string" where
  "kernel_panic_warning answer guardrail_reason ticket_id =
     answer @ ''\<newline>\<newline>'' @ WARNING_SIGN @ '' **Important:** '' @
     str_or guardrail_reason ''Kernel panic debugging requires specialized support.'' @
     '' I've created a support ticket (ID: '' @
     (case ticket_id of None \<Rightarrow> ''None'' | Some i \<Rightarrow> i) @
     '') for review by our platform engineering team. Please do not attempt to '' @
     ''modify kernel settings, drivers, or boot parameters.''"

definition critical_answer :: "string \<Rightarrow> string" where
  "critical_answer ticket_id =
     ''I understand this is a critical issue that requires immediate attention. I've '' @
     ''created a high-priority support ticket (ID: '' @
     ticket_id @
     '') and escalated it to our team. Our support team will contact you shortly to '' @
     ''assist with this urgent matter. In the meantime, please avoid any actions '' @
     ''that might worsen the situation.''"

definition technical_answer :: "string \<Rightarrow> string" where
  "technical_answer ticket_id =
     ''This appears to be a technical infrastructure issue that requires specialized '' @
     ''assistance. I've created a support ticket (ID: '' @
     ticket_id @
     '') and escalated it to our technical team. They will investigate the issue and '' @
     ''provide guidance. Please do not attempt to modify system files or '' @
     ''configurations without proper guidance.''"

definition blocked_answer :: "string option \<Rightarrow> string \<Rightarrow> string" where
  "blocked_answer guardrail_reason ticket_id =
     ''I cannot provide assistance with this request. '' @
     str_or guardrail_reason ''This operation is not allowed.'' @
     '' I've created a support ticket ('' @ ticket_id @ '') for review by our security team.''"

text \<open>Building the response validates the confidence, which must lie between 0 and 1.\<close>

definition to_ChatResponse ::
  "string \<Rightarrow> KBReference list \<Rightarrow> real \<Rightarrow> Tier \<Rightarrow> Severity \<Rightarrow> bool \<Rightarrow> bool \<Rightarrow>
   string option \<Rightarrow> string option \<Rightarrow> exn + ChatResponse" where
  "to_ChatResponse answer kb_references confidence tier severity needs_escalation blocked
       reason ticket_id =
     (if 0 \<le> confidence \<and> confidence \<le> 1
      then Inr \<lparr>cr_answer = answer, cr_kbReferences = kb_references,
                cr_confidence = confidence, cr_tier = tier, cr_severity = severity,
                cr_needsEscalation = needs_escalation, cr_guardrail_blocked = blocked,
                cr_guardrail_reason = reason, cr_ticketId = ticket_id\<rparr>
      else Inl ValidationError)"

text \<open>The handler of the endpoint turns every exception into the 500 error.\<close>

definition internal_error :: "(exn + 'a) \<times> session \<Rightarrow> (http_error + 'a) \<times> session" where
  "internal_error r =
     (case r of (Inl e, db) \<Rightarrow> (Inl HTTP_500, db) | (Inr v, db) \<Rightarrow> (Inr v, db))"

text \<open>The branch of a request the guardrail blocks.\<close>

definition chat_blocked ::
  "ChatRequest \<Rightarrow> Conversation \<Rightarrow> (string \<times> string) list \<Rightarrow> string option \<Rightarrow> session \<Rightarrow>
   (exn + ChatResponse) \<times> session" where
  "chat_blocked request conversation conversation_history guardrail_reason db =
     (case create_ticket (rq_sessionId request) (conv_id conversation)
             (generate_ticket_subject (rq_message request) TIER_3 HIGH)
             (generate_ticket_description (rq_message request) conversation_history [])
             TIER_3 HIGH (rq_userRole request) db of
        (Inl e, db) \<Rightarrow> (Inl e, db)
      | (Inr ticket, db) \<Rightarrow>
          (case add_message (conv_id conversation) ''user'' (Some (rq_message request))
                  None None None [] True guardrail_reason db of
             (Inl e, db) \<Rightarrow> (Inl e, db)
           | (Inr m, db) \<Rightarrow>
               (to_ChatResponse (blocked_answer guardrail_reason (t_id ticket)) [] 0.0
                  TIER_3 HIGH True True guardrail_reason (Some (t_id ticket)), db)))"

text \<open>The kernel-panic pass: it restores the guardrail decision, forces the escalation
  and creates the ticket if there is none yet. It returns the escalation flag, tier,
  severity, ticket id and answer.\<close>

definition kernel_panic_pass ::
  "ChatRequest \<Rightarrow> Conversation \<Rightarrow> (string \<times> string) list \<Rightarrow> RagResult \<Rightarrow> bool \<Rightarrow>
   string option \<Rightarrow> bool \<Rightarrow> Tier \<Rightarrow> Severity \<Rightarrow> string option \<Rightarrow> string \<Rightarrow> session \<Rightarrow>
   (exn + bool \<times> Tier \<times> Severity \<times> string option \<times> string) \<times> session" where
  "kernel_panic_pass request conversation conversation_history rag_result guardrail_blocked
       guardrail_reason needs_escalation tier severity ticket_id answer db =
     (let (needs_escalation, tier, severity) =
            (if \<not> needs_escalation then (True, TIER_3, HIGH)
             else (needs_escalation, tier, severity))
      in case (if \<not> truthy_str ticket_id \<and> needs_escalation
               then (case create_ticket (rq_sessionId request) (conv_id conversation)
                            (generate_ticket_subject (rq_message request) tier severity)
                            (generate_ticket_description (rq_message request)
                               conversation_history (rr_kbReferences rag_result))
                            tier severity (rq_userRole request) db of
                       (Inl e, db) \<Rightarrow> (Inl e, db)
                     | (Inr ticket, db) \<Rightarrow> (Inr (Some (t_id ticket)), db))
               else (Inr ticket_id, db)) of
           (Inl e, db) \<Rightarrow> (Inl e, db)
         | (Inr ticket_id, db) \<Rightarrow>
             (Inr (needs_escalation, tier, severity, ticket_id,
                   if guardrail_blocked
                   then kernel_panic_warning answer guardrail_reason ticket_id
                   else answer), db))"

text \<open>The last pass: the fixed answers for critical and for technical issues without a
  KB match.\<close>

definition final_answer ::
  "string \<Rightarrow> Severity \<Rightarrow> bool \<Rightarrow> bool \<Rightarrow> string option \<Rightarrow> string \<Rightarrow> string" where
  "final_answer query_lower severity has_kb_match needs_escalation ticket_id answer =
     (let is_technical_issue = any_in TECHNICAL_WORDS query_lower
      in if severity = CRITICAL \<and> \<not> has_kb_match \<and> needs_escalation \<and> truthy_str ticket_id
         then critical_answer (the ticket_id)
         else if is_technical_issue \<and> \<not> has_kb_match \<and> needs_escalation \<and>
                 truthy_str ticket_id
         then technical_answer (the ticket_id)
         else answer)"

text \<open>The request after the classification: ticket, assistant message and the passes
  over the answer.\<close>

definition chat_classified ::
  "ChatRequest \<Rightarrow> Conversation \<Rightarrow> (string \<times> string) list \<Rightarrow> RagResult \<Rightarrow> bool \<Rightarrow>
   string option \<Rightarrow> bool \<Rightarrow> real \<Rightarrow> int \<Rightarrow> session \<Rightarrow> (exn + ChatResponse) \<times> session" where
  "chat_classified request conversation conversation_history rag_result
       original_guardrail_blocked original_guardrail_reason is_kernel_panic_query
       sentiment_score unresolved_attempts db =
     (let has_kb_match = (length (rr_kbReferences rag_result) > 0);
          kb_confidence = rr_confidence rag_result;
          (tier, severity, needs_escalation) =
            classify_tier_and_severity (rq_message request) kb_confidence sentiment_score
              has_kb_match unresolved_attempts
      in case (if needs_escalation
               then (case create_ticket (rq_sessionId request) (conv_id conversation)
                            (generate_ticket_subject (rq_message request) tier severity)
                            (generate_ticket_description (rq_message request)
                               conversation_history (rr_kbReferences rag_result))
                            tier severity (rq_userRole request) db of
                       (Inl e, db) \<Rightarrow> (Inl e, db)
                     | (Inr ticket, db) \<Rightarrow> (Inr (Some (t_id ticket)), db))
               else (Inr None, db)) of
           (Inl e, db) \<Rightarrow> (Inl e, db)
         | (Inr ticket_id, db) \<Rightarrow>
             (case add_message (conv_id conversation) ''assistant'' (rr_answer rag_result)
                     (Some kb_confidence) (Some (Tier_value tier))
                     (Some (Severity_value severity))
                     (map ref_id (rr_kbReferences rag_result)) False None db of
                (Inl e, db) \<Rightarrow> (Inl e, db)
              | (Inr m, db) \<Rightarrow>
                  (let kb_references = rr_kbReferences rag_result;
                       answer = msg_content m;
                       query_lower = lower (rq_message request);
                       answer = time_drift_pass query_lower answer;
                       is_kernel_panic_with_fix =
                         (is_kernel_panic_query \<and> any_in FIX_WORDS query_lower)
                   in case (if is_kernel_panic_with_fix
                            then kernel_panic_pass request conversation conversation_history
                                   rag_result original_guardrail_blocked
                                   original_guardrail_reason needs_escalation tier severity
                                   ticket_id answer db
                            else (Inr (needs_escalation, tier, severity, ticket_id, answer),
                                  db)) of
                        (Inl e, db) \<Rightarrow> (Inl e, db)
                      | (Inr (needs_escalation, tier, severity, ticket_id, answer), db) \<Rightarrow>
                          (let guardrail_blocked =
                                 (if is_kernel_panic_with_fix then original_guardrail_blocked
                                  else if is_kernel_panic_query \<and> original_guardrail_blocked
                                  then False
                                  else original_guardrail_blocked);
                               answer = final_answer query_lower severity has_kb_match
                                          needs_escalation ticket_id answer;
                               final_guardrail_blocked =
                                 (is_kernel_panic_with_fix \<and> guardrail_blocked);
                               final_guardrail_reason =
                                 (if final_guardrail_blocked then original_guardrail_reason
                                  else None)
                           in (to_ChatResponse answer kb_references kb_confidence tier
                                 severity needs_escalation final_guardrail_blocked
                                 final_guardrail_reason ticket_id, db)))))"

text \<open>The request the guardrail lets through: sentiment, user message, RAG result, and
  the clarifying question, which ends the request when it is asked.\<close>

definition chat_answered ::
  "ChatRequest \<Rightarrow> Conversation \<Rightarrow> (string \<times> string) list \<Rightarrow> RagResult \<Rightarrow> bool \<Rightarrow>
   string option \<Rightarrow> bool \<Rightarrow> session \<Rightarrow> (exn + ChatResponse) \<times> session" where
  "chat_answered request conversation conversation_history rag_result
       original_guardrail_blocked original_guardrail_reason is_kernel_panic_query db =
     (let unresolved_attempts =
            int (length (filter (\<lambda>(role, content). py_in ''not working'' (lower content))
                           conversation_history));
          sentiment_result = analyze_sentiment (rq_message request) unresolved_attempts
      in case add_message (conv_id conversation) ''user'' (Some (rq_message request))
                None None None [] False None db of
           (Inl e, db) \<Rightarrow> (Inl e, db)
         | (Inr m, db) \<Rightarrow>
             (let (should_ask, clarifying_question) =
                    should_ask_clarifying_question (rq_message request)
                      (length (rr_kbReferences rag_result)) (rr_confidence rag_result)
              in if should_ask \<and> truthy_str clarifying_question
                 then (case add_message (conv_id conversation) ''assistant''
                               clarifying_question (Some 0.7) None None [] False None db of
                         (Inl e, db) \<Rightarrow> (Inl e, db)
                       | (Inr m, db) \<Rightarrow>
                           (to_ChatResponse (the clarifying_question) [] 0.7 TIER_2 LOW False
                              False None None, db))
                 else chat_classified request conversation conversation_history rag_result
                        original_guardrail_blocked original_guardrail_reason
                        is_kernel_panic_query (sr_score sentiment_result)
                        unresolved_attempts db))"

definition chat ::
  "ChatRequest \<Rightarrow> RagResult \<Rightarrow> session \<Rightarrow> (http_error + ChatResponse) \<times> session" where
  "chat request rag_result db =
     internal_error
       (case get_or_create_conversation (rq_sessionId request) (rq_userRole request) db of
          (Inl e, db) \<Rightarrow> (Inl e, db)
        | (Inr conversation, db) \<Rightarrow>
            (let conversation_history = get_conversation_history (rq_sessionId request) 10 db;
                 is_kernel_panic_query = py_in ''kernel panic'' (lower (rq_message request));
                 (original_guardrail_blocked, original_guardrail_reason) =
                   check_guardrail (rq_message request) (rq_userRole request);
                 guardrail_blocked =
                   (if is_kernel_panic_query \<and> original_guardrail_blocked then False
                    else original_guardrail_blocked);
                 guardrail_reason = original_guardrail_reason
             in case log_guardrail_event (rq_sessionId request) guardrail_blocked
                       guardrail_reason (rq_message request) (rq_userRole request) db of
                  (Inl e, db) \<Rightarrow> (Inl e, db)
                | (Inr u, db) \<Rightarrow>
                    if guardrail_blocked \<and> \<not> is_kernel_panic_query
                    then chat_blocked request conversation conversation_history
                           guardrail_reason db
                    else chat_answered request conversation conversation_history rag_result
                           original_guardrail_blocked original_guardrail_reason
                           is_kernel_panic_query db))"

section \<open>Vocabulary of the properties\<close>

text \<open>An operation raises when its result is an exception and not a value.\<close>

definition raises :: "('e + 'a) \<times> session \<Rightarrow> bool" where
  "raises r = (case fst r of Inl e \<Rightarrow> True | Inr v \<Rightarrow> False)"

text \<open>The next commit of the session goes through.\<close>

definition next_commit_succeeds :: "session \<Rightarrow> bool" where
  "next_commit_succeeds db = (case faults db of [] \<Rightarrow> True | f # fs \<Rightarrow> \<not> f)"

text \<open>A ticket with this id is stored.\<close>

definition ticket_exists :: "string \<Rightarrow> session \<Rightarrow> bool" where
  "ticket_exists ticket_id db = list_ex (\<lambda>t. t_id t = ticket_id) (tickets (stored db))"

text \<open>The status string is, case-insensitively, one of the four values of
  \<open>TicketStatus\<close>.\<close>

definition valid_status :: "string \<Rightarrow> bool" where
  "valid_status status \<longleftrightarrow>
     upper status \<in> set [''NEW'', ''IN_PROGRESS'', ''RESOLVED'', ''CLOSED'']"

text \<open>Every topic word occurs in the kbId, in the title and in the content of the
  chunk; no topic word occurs in the kbId or in the title of the chunk.\<close>

definition matches_everywhere :: "string list \<Rightarrow> KBChunk \<Rightarrow> bool" where
  "matches_everywhere query_words chunk \<longleftrightarrow>
     list_all (\<lambda>w. py_in w (lower (kc_kb_id chunk)) \<and> py_in w (lower (kc_title chunk)) \<and>
                   py_in w (lower (kc_content chunk))) query_words"

definition matches_content_only :: "string list \<Rightarrow> KBChunk \<Rightarrow> bool" where
  "matches_content_only query_words chunk \<longleftrightarrow>
     list_all (\<lambda>w. \<not> py_in w (lower (kc_kb_id chunk)) \<and> \<not> py_in w (lower (kc_title chunk)))
       query_words"

text \<open>The dictionary a chunk has in the result of a search for the query.\<close>

definition result_of :: "string \<Rightarrow> KBChunk \<Rightarrow> pydict" where
  "result_of query chunk = scored_chunk chunk (chunk_score (search_words query) chunk)"

text \<open>The points one query word adds to the score of a chunk.\<close>

definition word_points :: "string \<Rightarrow> string \<Rightarrow> string \<Rightarrow> string \<Rightarrow> int" where
  "word_points w k t c =
     (if py_in w k then 5 else 0) + (if py_in w t then 3 else 0) + (if py_in w c then 2 else 0)"

text \<open>The message is a kernel-panic query that asks for a fix.\<close>

definition kernel_panic_with_fix :: "string \<Rightarrow> bool" where
  "kernel_panic_with_fix message \<longleftrightarrow>
     py_in ''kernel panic'' (lower message) \<and> any_in FIX_WORDS (lower message)"

text \<open>The endpoint answers the request with a clarifying question.\<close>

definition asks_clarifying :: "ChatRequest \<Rightarrow> RagResult \<Rightarrow> bool" where
  "asks_clarifying request rag_result \<longleftrightarrow>
     fst (should_ask_clarifying_question (rq_message request)
            (length (rr_kbReferences rag_result)) (rr_confidence rag_result)) \<and>
     truthy_str (snd (should_ask_clarifying_question (rq_message request)
            (length (rr_kbReferences rag_result)) (rr_confidence rag_result)))"

text \<open>The answer is blank, shorter than 150 characters, or has none of the time-drift
  keywords.\<close>

definition defective_answer :: "string \<Rightarrow> bool" where
  "defective_answer answer \<longleftrightarrow>
     py_strip answer = [] \<or> length answer < 150 \<or>
     \<not> any_in TIME_DRIFT_KEYWORDS (lower answer)"

text \<open>The answer of the language model, or of the template, is absent or defective.\<close>

definition defective_generation :: "string option \<Rightarrow> bool" where
  "defective_generation raw \<longleftrightarrow>
     (case raw of None \<Rightarrow> True | Some answer \<Rightarrow> defective_answer answer)"

text \<open>The last pass leaves the answer alone: there is a KB match, or the message has
  neither a critical keyword nor a technical-issue word.\<close>

definition keeps_answer :: "ChatRequest \<Rightarrow> RagResult \<Rightarrow> bool" where
  "keeps_answer request rag_result \<longleftrightarrow>
     rr_kbReferences rag_result \<noteq> [] \<or>
     (\<not> any_in CRITICAL_KEYWORDS (lower (rq_message request)) \<and>
      \<not> any_in TECHNICAL_WORDS (lower (rq_message request)))"

text \<open>The response of the endpoint, if it returns one.\<close>

definition response_of :: "(http_error + ChatResponse) \<times> session \<Rightarrow> ChatResponse option" where
  "response_of r = (case fst r of Inl e \<Rightarrow> None | Inr response \<Rightarrow> Some response)"





subsection \<open>Concrete inputs\<close>

definition example_ids :: "nat \<Rightarrow> string" where
  "example_ids n = ''id-'' @ replicate n (CHR ''x'')"

definition empty_tables :: tables where
  "empty_tables = \<lparr>conversations = [], messages = [], tickets = [], guardrail_events = []\<rparr>"

text \<open>A session without uncommitted changes, at 2024-01-10 15:00:00 UTC.\<close>

definition example_now :: int where
  "example_now = 1704898800000000"

definition example_session :: "bool list \<Rightarrow> tables \<Rightarrow> session" where
  "example_session fs tb =
     \<lparr>stored = tb, working = tb, faults = fs, id_source = example_ids, id_next = 0,
      clock = example_now\<rparr>"

text \<open>One ticket, created at 2024-01-10 09:00:00 UTC.\<close>

definition example_ticket :: Ticket where
  "example_ticket =
     \<lparr>t_id = ''ticket-1'', t_conversation_id = ''conversation-1'', t_session_id = ''session-1'',
      t_subject = ''Lab VM does not start'', t_description = ''User Issue: Lab VM does not start'',
      t_tier = ''TIER_2'', t_severity = ''MEDIUM'', t_status = ''NEW'', t_user_role = ''trainee'',
      t_created_at = 1704877200000000, t_updated_at = 1704877200000000\<rparr>"

definition example_tables :: tables where
  "example_tables = empty_tables\<lparr>tickets := [example_ticket]\<rparr>"

text \<open>Two stored chunks: the kbId, title and content of the first name the topic
  ``mfa reset''; the second mentions it in its content only.\<close>

definition mfa_chunk :: KBChunk where
  "mfa_chunk =
     \<lparr>kc_id = ''KB-MFA-RESET-chunk-0'', kc_kb_id = ''KB-MFA-RESET'', kc_title = ''MFA Reset Guide'',
      kc_content = ''To request an MFA reset, open the account portal and choose Security.'',
      kc_chunk_index = 0, kc_category = PStr ''Access'', kc_source = PStr ''MKDocs'',
      kc_extra_metadata = PDict [], kc_created_at = 1704877200000000\<rparr>"

definition login_chunk :: KBChunk where
  "login_chunk =
     \<lparr>kc_id = ''KB-LOGIN-chunk-3'', kc_kb_id = ''KB-LOGIN'', kc_title = ''Login Troubleshooting'',
      kc_content = ''If the login still fails, an mfa reset by the support team may help.'',
      kc_chunk_index = 3, kc_category = PStr ''Access'', kc_source = PStr ''MKDocs'',
      kc_extra_metadata = PDict [], kc_created_at = 1704877200000000\<rparr>"

text \<open>Requests of a trainee and two RAG results: an answer with one KB reference, and
  the answer the RAG service gives when it finds nothing.\<close>

definition kernel_panic_request :: ChatRequest where
  "kernel_panic_request =
     \<lparr>rq_sessionId = ''session-1'', rq_message = ''How to fix kernel panic on my lab VM?'',
      rq_userRole = ''trainee''\<rparr>"

definition clock_request :: ChatRequest where
  "clock_request =
     \<lparr>rq_sessionId = ''session-1'',
      rq_message = ''My VM clock is behind and authentication keeps failing'',
      rq_userRole = ''trainee''\<rparr>"

definition clock_crash_request :: ChatRequest where
  "clock_crash_request =
     \<lparr>rq_sessionId = ''session-1'', rq_message = ''The clock sync crashed on my lab VM'',
      rq_userRole = ''trainee''\<rparr>"

definition kernel_rag_result :: RagResult where
  "kernel_rag_result =
     \<lparr>rr_answer =
        Some (''Kernel panics are handled by platform engineering. '' @
              ''Please note the time of the panic and the VM name and report them.''),
      rr_kbReferences =
        [\<lparr>ref_id = ''KB-KERNEL'', ref_title = ''Kernel Panic Handling'',
          ref_snippet = ''Kernel panics are handled by platform engineering.''\<rparr>],
      rr_confidence = 0.6\<rparr>"

text \<open>The RAG result for \<open>clock_request\<close> when the language model returns no content.\<close>

definition absent_rag_result :: RagResult where
  "absent_rag_result =
     \<lparr>rr_answer = generated_answer (rq_message clock_request) (LLM_returns None) [],
      rr_kbReferences =
        [\<lparr>ref_id = ''KB-TIME'', ref_title = ''Time Drift Policy'',
          ref_snippet = ''Trainees are not allowed to modify time synchronization.''\<rparr>],
      rr_confidence = 0.6\<rparr>"

definition NOT_IN_KB_ANSWER :: string where
  "NOT_IN_KB_ANSWER =
     ''I'm sorry, but this issue is not covered in the knowledge base. '' @
     ''I recommend creating a support ticket so our team can assist you with this '' @
     ''specific problem.''"

definition empty_rag_result :: RagResult where
  "empty_rag_result =
     \<lparr>rr_answer = Some NOT_IN_KB_ANSWER, rr_kbReferences = [], rr_confidence = 0.0\<rparr>"








section \<open>Properties of the classifier\<close>

text \<open>
  C10. Whenever the classifier returns severity \<open>CRITICAL\<close>, it returns tier \<open>TIER_3\<close>
  and needsEscalation true: the good-KB-match override needs a severity of \<open>LOW\<close> or
  \<open>MEDIUM\<close> and the ambiguous-environment override needs a severity other than
  \<open>CRITICAL\<close>, so neither cancels the escalation of a critical query.
\<close>

theorem critical_is_tier3_escalated:
  assumes "severity_of (classify_tier_and_severity q conf sent has_kb n) = CRITICAL"
  shows "tier_of (classify_tier_and_severity q conf sent has_kb n) = TIER_3 \<and>
         escalation_of (classify_tier_and_severity q conf sent has_kb n) = True"
  using assms
  by (simp add: classify_tier_and_severity_def severity_of_def tier_of_def
        escalation_of_def Let_def)

text \<open>The critical query of the repository's own test.\<close>

theorem critical_is_tier3_escalated_witness:
  "severity_of (classify_tier_and_severity ''My lab VM crashed and I lost all my work''
      0.9 0.2 True 0) = CRITICAL \<and>
   tier_of (classify_tier_and_severity ''My lab VM crashed and I lost all my work''
      0.9 0.2 True 0) = TIER_3 \<and>
   escalation_of (classify_tier_and_severity ''My lab VM crashed and I lost all my work''
      0.9 0.2 True 0) = True"
proof -
  have h: "severity_of (classify_tier_and_severity ''My lab VM crashed and I lost all my work''
      0.9 0.2 True 0) = CRITICAL"
    by code_simp
  from h critical_is_tier3_escalated [OF h] show ?thesis by simp
qed

text \<open>
  C5, as amended. With three or more unresolved attempts the tier is \<open>TIER_3\<close>, and
  needsEscalation is true exactly when neither later override applies: the
  good-KB-match override (a KB match of confidence at least 0.3, severity \<open>LOW\<close> or
  \<open>MEDIUM\<close>, sentiment below 0.5) and the ambiguous-environment override (an
  ambiguous-environment word in the query, severity not \<open>CRITICAL\<close>) each set it to
  false. The rule on unresolved attempts does not dominate them.
\<close>

theorem three_attempts_escalate_unless_overridden:
  assumes "unresolved_attempts \<ge> 3"
  shows "tier_of (classify_tier_and_severity q conf sent has_kb unresolved_attempts) = TIER_3 \<and>
         escalation_of (classify_tier_and_severity q conf sent has_kb unresolved_attempts) =
           (\<not> (has_kb \<and> conf \<ge> 0.3 \<and>
                severity_of (classify_tier_and_severity q conf sent has_kb unresolved_attempts)
                  \<in> set [LOW, MEDIUM] \<and>
                sent < 0.5) \<and>
            \<not> (any_in AMBIGUOUS_WORDS (lower q) \<and>
                severity_of (classify_tier_and_severity q conf sent has_kb unresolved_attempts)
                  \<noteq> CRITICAL))"
  using assms
  by (simp add: classify_tier_and_severity_def severity_of_def tier_of_def
        escalation_of_def Let_def)

text \<open>The call of the repository's test: the sentiment 0.5 is not below 0.5 and the
  query has no ambiguous-environment word.\<close>

theorem three_attempts_escalate_witness:
  "(3::int) \<ge> 3 \<and> py_in ''still doesn't work'' (lower ''This still doesn't work'') \<and>
   escalation_of (classify_tier_and_severity ''This still doesn't work'' 0.7 0.5 True 3) = True"
proof -
  have h: "(3::int) \<ge> 3" by simp
  have p: "py_in ''still doesn't work'' (lower ''This still doesn't work'')" by code_simp
  have a: "\<not> any_in AMBIGUOUS_WORDS (lower ''This still doesn't work'')" by code_simp
  from h p a three_attempts_escalate_unless_overridden
    [OF h, of "''This still doesn't work''" "0.7" "0.5" True]
  show ?thesis by simp
qed

text \<open>The claim as stated fails: the same call with a query that also contains
  ``wrong'' and ``environment'' does not escalate.\<close>

theorem three_attempts_overridden_counterexample:
  "py_in ''still doesn't work'' (lower ''The wrong environment still doesn't work'') \<and>
   escalation_of
     (classify_tier_and_severity ''The wrong environment still doesn't work'' 0.7 0.5 True 3) =
   False"
  by code_simp

section \<open>Properties of the guardrail engine\<close>

lemma find_append_cases:
  "find P (xs @ ys) = (case find P xs of Some x \<Rightarrow> Some x | None \<Rightarrow> find P ys)"
  by (induction xs) auto

lemma host_reason:
  assumes "(p, r) \<in> set (take 3 HOST_MACHINE_PATTERNS)"
  shows "py_in ''host machine'' r"
  using assms by (auto simp: HOST_MACHINE_PATTERNS_def)

lemma hypervisor_reason:
  assumes "(p, r) \<in> set (drop 3 HOST_MACHINE_PATTERNS)"
  shows "r = ''Modifying hypervisor settings is not allowed''"
  using assms by (auto simp: HOST_MACHINE_PATTERNS_def)

lemma find_Some_mem: "find P xs = Some x \<Longrightarrow> x \<in> set xs"
  by (auto simp: find_Some_iff in_set_conv_nth)

lemma list_ex_find: "list_ex P xs \<Longrightarrow> \<exists>x. find P xs = Some x"
  by (cases "find P xs") (auto simp: find_None_iff list_ex_iff)

text \<open>
  C1, as amended. A message that contains a host-machine-access phrase is blocked for
  every role, ``admin'' and ``support\_engineer'' included. The reason contains
  ``host machine'' when one of the first three host-machine patterns matches the
  message; when only a hypervisor pattern matches, the reason is ``Modifying
  hypervisor settings is not allowed''. Every message that matches a rule of the
  table (rules 1 to 7) is blocked whatever the role; the role decides only when none
  of them matches, and then the message is blocked exactly when the role is neither
  ``admin'' nor ``support\_engineer'' and one of the four role-based patterns matches.
\<close>

theorem host_machine_access_blocked_for_every_role:
  "(host_machine_phrase m \<longrightarrow>
      (\<exists>r. check_guardrail m role = (True, Some r) \<and>
           (if host_machine_wording m then py_in ''host machine'' r
            else r = ''Modifying hypervisor settings is not allowed''))) \<and>
   (unsafe_operation m \<longrightarrow> fst (check_guardrail m role) = True) \<and>
   (\<not> unsafe_operation m \<longrightarrow>
      fst (check_guardrail m role) =
        (lower role \<notin> set [''admin'', ''support_engineer''] \<and> admin_only_operation m))"
proof (intro conjI impI)
  let ?P = "\<lambda>(pattern, reason). re_search pattern (lower m)"
  let ?A = "take 3 HOST_MACHINE_PATTERNS" and ?B = "drop 3 HOST_MACHINE_PATTERNS"
  assume "host_machine_phrase m"
  then obtain x where x: "find ?P HOST_MACHINE_PATTERNS = Some x"
    unfolding host_machine_phrase_def by (auto dest: list_ex_find)
  obtain p r where pr: "x = (p, r)" by (cases x)
  from x pr have "find ?P BLOCKED_PATTERNS = Some (p, r)"
    by (simp add: BLOCKED_PATTERNS_def find_append_cases)
  then have blocked: "check_guardrail m role = (True, Some r)"
    by (simp add: check_guardrail_def)
  have "find ?P (?A @ ?B) = find ?P HOST_MACHINE_PATTERNS"
    by (simp only: append_take_drop_id)
  with x pr have f: "find ?P (?A @ ?B) = Some (p, r)" by simp
  have "if host_machine_wording m then py_in ''host machine'' r
        else r = ''Modifying hypervisor settings is not allowed''"
  proof (cases "host_machine_wording m")
    case True
    then obtain y where y: "find ?P ?A = Some y"
      unfolding host_machine_wording_def by (auto dest: list_ex_find)
    with f have "y = (p, r)" by (simp only: find_append_cases option.case option.inject)
    with y have "(p, r) \<in> set ?A" by (auto dest: find_Some_mem)
    with True show ?thesis by (simp add: host_reason)
  next
    case False
    then have "find ?P ?A = None"
      unfolding host_machine_wording_def list_ex_iff by (auto simp: find_None_iff)
    with f have "find ?P ?B = Some (p, r)" by (simp only: find_append_cases option.case)
    then have "(p, r) \<in> set ?B" by (rule find_Some_mem)
    with False show ?thesis by (simp add: hypervisor_reason)
  qed
  with blocked
  show "\<exists>r. check_guardrail m role = (True, Some r) \<and>
           (if host_machine_wording m then py_in ''host machine'' r
            else r = ''Modifying hypervisor settings is not allowed'')"
    by blast
next
  let ?P = "\<lambda>(pattern, reason). re_search pattern (lower m)"
  assume "unsafe_operation m"
  then obtain x where "find ?P BLOCKED_PATTERNS = Some x"
    unfolding unsafe_operation_def by (auto dest: list_ex_find)
  then show "fst (check_guardrail m role) = True"
    by (cases x) (simp add: check_guardrail_def)
next
  let ?P = "\<lambda>(pattern, reason). re_search pattern (lower m)"
  assume "\<not> unsafe_operation m"
  then have "find ?P BLOCKED_PATTERNS = None"
    unfolding unsafe_operation_def list_ex_iff by (auto simp: find_None_iff)
  then show "fst (check_guardrail m role) =
        (lower role \<notin> set [''admin'', ''support_engineer''] \<and> admin_only_operation m)"
    by (simp add: check_guardrail_def admin_only_operation_def)
qed

text \<open>The message of the specification for two exempt roles, a hypervisor message for
  an exempt role, and a role-based pattern for an exempt and a non-exempt role.\<close>

theorem host_machine_access_blocked_witness:
  "host_machine_phrase ''How do I access the host machine behind my VM?'' \<and>
   host_machine_wording ''How do I access the host machine behind my VM?'' \<and>
   (\<exists>r. check_guardrail ''How do I access the host machine behind my VM?'' ''admin'' =
          (True, Some r) \<and> py_in ''host machine'' r) \<and>
   unsafe_operation ''How do I access the host machine behind my VM?'' \<and>
   fst (check_guardrail ''How do I access the host machine behind my VM?''
          ''support_engineer'') = True \<and>
   host_machine_phrase ''Please change the hypervisor config'' \<and>
   \<not> host_machine_wording ''Please change the hypervisor config'' \<and>
   check_guardrail ''Please change the hypervisor config'' ''support_engineer'' =
     (True, Some ''Modifying hypervisor settings is not allowed'') \<and>
   \<not> unsafe_operation ''Please change the system config'' \<and>
   fst (check_guardrail ''Please change the system config'' ''admin'') = False \<and>
   fst (check_guardrail ''Please change the system config'' ''trainee'') = True"
proof -
  have h1: "host_machine_phrase ''How do I access the host machine behind my VM?''"
    by code_simp
  have w1: "host_machine_wording ''How do I access the host machine behind my VM?''"
    by code_simp
  have h2: "unsafe_operation ''How do I access the host machine behind my VM?''"
    by code_simp
  have h3: "\<not> unsafe_operation ''Please change the system config''"
    by code_simp
  have h4: "admin_only_operation ''Please change the system config''"
    by code_simp
  have h5: "lower ''admin'' \<in> set [''admin'', ''support_engineer'']"
    by code_simp
  have h6: "lower ''trainee'' \<notin> set [''admin'', ''support_engineer'']"
    by code_simp
  have h7: "host_machine_phrase ''Please change the hypervisor config''"
    by code_simp
  have w7: "\<not> host_machine_wording ''Please change the hypervisor config''"
    by code_simp
  from h1 w1 h2 h3 h4 h5 h6 h7 w7
    host_machine_access_blocked_for_every_role
      [of "''How do I access the host machine behind my VM?''" "''admin''"]
    host_machine_access_blocked_for_every_role
      [of "''How do I access the host machine behind my VM?''" "''support_engineer''"]
    host_machine_access_blocked_for_every_role
      [of "''Please change the hypervisor config''" "''support_engineer''"]
    host_machine_access_blocked_for_every_role
      [of "''Please change the system config''" "''admin''"]
    host_machine_access_blocked_for_every_role
      [of "''Please change the system config''" "''trainee''"]
  show ?thesis by auto
qed

text \<open>The claim as stated fails: a request to change the hypervisor settings is a
  host-machine-access phrase of rule 1 and is blocked for ``admin'', but its reason
  does not contain ``host machine''.\<close>

theorem hypervisor_reason_counterexample:
  "host_machine_phrase ''How do I change the hypervisor settings?'' \<and>
   check_guardrail ''How do I change the hypervisor settings?'' ''admin'' =
     (True, Some ''Modifying hypervisor settings is not allowed'') \<and>
   \<not> py_in ''host machine'' ''Modifying hypervisor settings is not allowed''"
  by code_simp

section \<open>Properties of the store operations\<close>

lemma commit_fails:
  "faults db = True # fs \<Longrightarrow> commit db = (Inl SQLAlchemyError, db\<lparr>faults := fs\<rparr>)"
  by (simp add: commit_def)

lemma commit_succeeds:
  "next_commit_succeeds db \<Longrightarrow>
   commit db = (Inr (), db\<lparr>stored := working db, faults := tl (faults db)\<rparr>)"
  by (cases "faults db") (auto simp: commit_def next_commit_succeeds_def)

text \<open>
  C4, as amended. When the commit of a GuardrailEvent fails, the logging operation
  rolls the transaction back (nothing of the event is stored and nothing is left
  uncommitted) and returns normally: the failure is logged and swallowed, not raised
  to the caller.
\<close>

theorem guardrail_event_failure_is_swallowed:
  assumes "faults db = True # fs"
  shows "fst (log_guardrail_event session_id blocked reason message_content user_role db) =
           Inr () \<and>
         stored (snd (log_guardrail_event session_id blocked reason message_content
                        user_role db)) = stored db \<and>
         working (snd (log_guardrail_event session_id blocked reason message_content
                         user_role db)) = stored db"
  using assms
  by (simp add: log_guardrail_event_def fresh_id_def add_guardrail_event_def commit_def
        rollback_def Let_def)

text \<open>A session whose next commit fails.\<close>

theorem guardrail_event_failure_witness:
  "faults (example_session [True] empty_tables) = True # [] \<and>
   fst (log_guardrail_event ''session-1'' True (Some ''Disabling logging is not allowed'')
          ''Show me how to disable logging'' ''trainee''
          (example_session [True] empty_tables)) = Inr () \<and>
   stored (snd (log_guardrail_event ''session-1'' True
          (Some ''Disabling logging is not allowed'')
          ''Show me how to disable logging'' ''trainee''
          (example_session [True] empty_tables))) = empty_tables"
proof -
  have h: "faults (example_session [True] empty_tables) = True # []"
    by (simp add: example_session_def)
  have s: "stored (example_session [True] empty_tables) = empty_tables"
    by (simp add: example_session_def)
  from h s guardrail_event_failure_is_swallowed [OF h] show ?thesis by simp
qed

text \<open>The claim as stated fails: on that session the operation does not raise.\<close>

theorem guardrail_event_reraise_counterexample:
  "\<not> raises (log_guardrail_event ''session-1'' True (Some ''Disabling logging is not allowed'')
               ''Show me how to disable logging'' ''trainee''
               (example_session [True] empty_tables))"
  by (simp add: raises_def log_guardrail_event_def fresh_id_def add_guardrail_event_def
        commit_def rollback_def example_session_def Let_def)

section \<open>Properties of the tickets\<close>

lemma find_update_first:
  assumes "find P xs = Some x" and "P (f x)"
  shows "find P (update_first P f xs) = Some (f x)"
  using assms by (induction xs) (auto split: if_splits)

lemma find_exists:
  "list_ex P xs \<Longrightarrow> \<exists>x. find P xs = Some x \<and> P x"
  by (induction xs) auto

lemma find_not_exists:
  "\<not> list_ex P xs \<Longrightarrow> find P xs = None"
  by (induction xs) auto

lemma TicketStatus_of_value_None:
  "TicketStatus_of_value v = None \<longleftrightarrow>
     v \<notin> set [''NEW'', ''IN_PROGRESS'', ''RESOLVED'', ''CLOSED'']"
  by (auto simp: TicketStatus_of_value_def)

lemma create_ticket_status:
  assumes "create_ticket session_id conversation_id subject description tier severity
             user_role db = (Inr ticket, db')"
  shows "t_status ticket = ''NEW'' \<and> tickets (stored db') = tickets (working db) @ [ticket]"
  using assms
  by (auto simp: create_ticket_def fresh_id_def add_ticket_def commit_def rollback_def Let_def
        split: list.splits if_splits)

lemma create_ticket_succeeds:
  assumes "next_commit_succeeds db"
  shows "\<exists>ticket db'. create_ticket session_id conversation_id subject description tier
           severity user_role db = (Inr ticket, db')"
  using assms
  by (auto simp: create_ticket_def fresh_id_def add_ticket_def commit_def rollback_def Let_def
        next_commit_succeeds_def split: list.splits if_splits)

lemma update_invalid:
  assumes "working db = stored db" and "ticket_exists ticket_id db"
    and "\<not> valid_status status"
  shows "update_ticket_status ticket_id status db =
           (Inl (HTTP_400 (''Invalid status: '' @ status)), db)"
proof -
  from assms(1,2) obtain t where "find (\<lambda>t. t_id t = ticket_id) (tickets (working db)) = Some t"
    unfolding ticket_exists_def by (auto dest: find_exists)
  moreover from assms(3) have "TicketStatus_of_value (upper status) = None"
    unfolding valid_status_def TicketStatus_of_value_None .
  ultimately show ?thesis by (simp add: update_ticket_status_def)
qed

lemma update_missing:
  assumes "working db = stored db" and "\<not> ticket_exists ticket_id db"
  shows "update_ticket_status ticket_id status db = (Inl (HTTP_404 ''Ticket not found''), db)"
    and "get_ticket ticket_id db = Inl (HTTP_404 ''Ticket not found'')"
  using assms find_not_exists [of "\<lambda>t. t_id t = ticket_id" "tickets (stored db)"]
  by (simp_all add: update_ticket_status_def get_ticket_def ticket_exists_def)

lemma update_valid:
  assumes "working db = stored db" and "ticket_exists ticket_id db"
    and "valid_status status" and "next_commit_succeeds db"
  shows "\<exists>db'. update_ticket_status ticket_id status db =
           (Inr \<lparr>su_message = ''Ticket status updated'', su_ticket_id = ticket_id,
                 su_status = upper status\<rparr>, db') \<and>
           stored_status ticket_id db' = Some (upper status)"
proof -
  let ?P = "\<lambda>t. t_id t = ticket_id"
  let ?f = "\<lambda>t. t\<lparr>t_status := upper status, t_updated_at := clock db\<rparr>"
  from assms(1,2) obtain t where t: "find ?P (tickets (working db)) = Some t" "t_id t = ticket_id"
    unfolding ticket_exists_def by (auto dest: find_exists)
  from assms(3) obtain v where v: "TicketStatus_of_value (upper status) = Some v"
    unfolding valid_status_def using TicketStatus_of_value_None [of "upper status"]
    by (cases "TicketStatus_of_value (upper status)") auto
  have upd: "find ?P (update_first ?P ?f (tickets (working db))) = Some (?f t)"
    by (rule find_update_first [OF t(1)]) (simp add: t(2))
  define db1 where "db1 = db\<lparr>working := (working db)\<lparr>tickets :=
                           update_first ?P ?f (tickets (working db))\<rparr>\<rparr>"
  have ok: "next_commit_succeeds db1"
    using assms(4) by (simp add: db1_def next_commit_succeeds_def)
  have c: "commit db1 = (Inr (), db1\<lparr>stored := working db1, faults := tl (faults db1)\<rparr>)"
    using ok by (cases "faults db1") (auto simp: commit_def next_commit_succeeds_def)
  have "update_ticket_status ticket_id status db =
          (Inr \<lparr>su_message = ''Ticket status updated'', su_ticket_id = ticket_id,
                su_status = upper status\<rparr>,
           db1\<lparr>stored := working db1, faults := tl (faults db1)\<rparr>)"
    using t v c by (simp add: update_ticket_status_def Let_def db1_def)
  moreover have "stored_status ticket_id (db1\<lparr>stored := working db1, faults := tl (faults db1)\<rparr>)
                   = Some (upper status)"
    using upd by (simp add: stored_status_def db1_def)
  ultimately show ?thesis by blast
qed

text \<open>
  C6. On a session without uncommitted changes: a ticket that \<open>create_ticket\<close> returns
  has status ``NEW'' and is the last stored ticket, and \<open>create_ticket\<close> returns one
  whenever its commit goes through; updating a stored ticket with a status that is
  not, case-insensitively, one of NEW, IN\_PROGRESS, RESOLVED, CLOSED fails with the 400
  error and leaves the session, and so the stored status, as it was; updating or
  getting an id that is not stored fails with the 404 error; a valid update whose
  commit goes through stores the upper-cased status and returns the message, the ticket
  id and the new status.
\<close>

theorem ticket_status_lifecycle:
  assumes "working db = stored db"
  shows "(\<forall>ticket db'. create_ticket session_id conversation_id subject description tier
             severity user_role db = (Inr ticket, db') \<longrightarrow>
            t_status ticket = ''NEW'' \<and>
            tickets (stored db') = tickets (stored db) @ [ticket]) \<and>
         (next_commit_succeeds db \<longrightarrow>
            (\<exists>ticket db'. create_ticket session_id conversation_id subject description tier
               severity user_role db = (Inr ticket, db'))) \<and>
         (ticket_exists ticket_id db \<and> \<not> valid_status status \<longrightarrow>
            update_ticket_status ticket_id status db =
              (Inl (HTTP_400 (''Invalid status: '' @ status)), db)) \<and>
         (\<not> ticket_exists ticket_id db \<longrightarrow>
            update_ticket_status ticket_id status db =
              (Inl (HTTP_404 ''Ticket not found''), db) \<and>
            get_ticket ticket_id db = Inl (HTTP_404 ''Ticket not found'')) \<and>
         (ticket_exists ticket_id db \<and> valid_status status \<and> next_commit_succeeds db \<longrightarrow>
            (\<exists>db'. update_ticket_status ticket_id status db =
               (Inr \<lparr>su_message = ''Ticket status updated'', su_ticket_id = ticket_id,
                     su_status = upper status\<rparr>, db') \<and>
               stored_status ticket_id db' = Some (upper status)))"
proof (intro conjI impI allI)
  fix ticket db'
  assume "create_ticket session_id conversation_id subject description tier severity
            user_role db = (Inr ticket, db')"
  from create_ticket_status [OF this] assms
  show "t_status ticket = ''NEW''" and "tickets (stored db') = tickets (stored db) @ [ticket]"
    by simp_all
next
  assume "next_commit_succeeds db"
  then show "\<exists>ticket db'. create_ticket session_id conversation_id subject description tier
               severity user_role db = (Inr ticket, db')"
    by (rule create_ticket_succeeds)
next
  assume "ticket_exists ticket_id db \<and> \<not> valid_status status"
  with assms show "update_ticket_status ticket_id status db =
              (Inl (HTTP_400 (''Invalid status: '' @ status)), db)"
    by (simp add: update_invalid)
next
  assume "\<not> ticket_exists ticket_id db"
  with assms show "update_ticket_status ticket_id status db =
              (Inl (HTTP_404 ''Ticket not found''), db)"
    and "get_ticket ticket_id db = Inl (HTTP_404 ''Ticket not found'')"
    by (simp_all add: update_missing)
next
  assume "ticket_exists ticket_id db \<and> valid_status status \<and> next_commit_succeeds db"
  with assms show "\<exists>db'. update_ticket_status ticket_id status db =
               (Inr \<lparr>su_message = ''Ticket status updated'', su_ticket_id = ticket_id,
                     su_status = upper status\<rparr>, db') \<and>
               stored_status ticket_id db' = Some (upper status)"
    by (simp add: update_valid)
qed

text \<open>A store with the ticket ``ticket-1'': the updates ``BOGUS'' and ``in\_progress'',
  and the unknown id ``ticket-9''.\<close>

theorem ticket_status_lifecycle_witness:
  "working (example_session [] example_tables) = stored (example_session [] example_tables) \<and>
   next_commit_succeeds (example_session [] example_tables) \<and>
   (\<exists>ticket db'. create_ticket ''session-1'' ''conversation-1'' ''Lab VM does not start''
       ''User Issue: Lab VM does not start'' TIER_2 MEDIUM ''trainee''
       (example_session [] example_tables) = (Inr ticket, db') \<and> t_status ticket = ''NEW'') \<and>
   ticket_exists ''ticket-1'' (example_session [] example_tables) \<and>
   \<not> valid_status ''BOGUS'' \<and>
   update_ticket_status ''ticket-1'' ''BOGUS'' (example_session [] example_tables) =
     (Inl (HTTP_400 ''Invalid status: BOGUS''), example_session [] example_tables) \<and>
   \<not> ticket_exists ''ticket-9'' (example_session [] example_tables) \<and>
   update_ticket_status ''ticket-9'' ''CLOSED'' (example_session [] example_tables) =
     (Inl (HTTP_404 ''Ticket not found''), example_session [] example_tables) \<and>
   get_ticket ''ticket-9'' (example_session [] example_tables) =
     Inl (HTTP_404 ''Ticket not found'') \<and>
   valid_status ''in_progress'' \<and>
   (\<exists>db'. update_ticket_status ''ticket-1'' ''in_progress''
            (example_session [] example_tables) =
          (Inr \<lparr>su_message = ''Ticket status updated'', su_ticket_id = ''ticket-1'',
                su_status = ''IN_PROGRESS''\<rparr>, db') \<and>
          stored_status ''ticket-1'' db' = Some ''IN_PROGRESS'')"
proof -
  let ?db = "example_session [] example_tables"
  have q: "working ?db = stored ?db" by (simp add: example_session_def)
  have c: "next_commit_succeeds ?db"
    by (simp add: example_session_def next_commit_succeeds_def)
  have e1: "ticket_exists ''ticket-1'' ?db"
    by (simp add: ticket_exists_def example_session_def example_tables_def
          example_ticket_def)
  have e9: "\<not> ticket_exists ''ticket-9'' ?db"
    by (simp add: ticket_exists_def example_session_def example_tables_def
          example_ticket_def)
  have b: "\<not> valid_status ''BOGUS''" by code_simp
  have v: "valid_status ''in_progress''" by code_simp
  have u: "upper ''in_progress'' = ''IN_PROGRESS''" by code_simp
  note t = ticket_status_lifecycle [OF q]
  from t [of "''session-1''" "''conversation-1''" "''Lab VM does not start''"
      "''User Issue: Lab VM does not start''" TIER_2 MEDIUM "''trainee''"] c
  have p1: "\<exists>ticket db'. create_ticket ''session-1'' ''conversation-1''
       ''Lab VM does not start'' ''User Issue: Lab VM does not start'' TIER_2 MEDIUM
       ''trainee'' ?db = (Inr ticket, db') \<and> t_status ticket = ''NEW''"
    by blast
  from t [where ticket_id = "''ticket-1''" and status = "''BOGUS''"] e1 b
  have p2: "update_ticket_status ''ticket-1'' ''BOGUS'' ?db =
     (Inl (HTTP_400 ''Invalid status: BOGUS''), ?db)"
    by simp
  from t [where ticket_id = "''ticket-9''" and status = "''CLOSED''"] e9
  have p3: "update_ticket_status ''ticket-9'' ''CLOSED'' ?db =
              (Inl (HTTP_404 ''Ticket not found''), ?db) \<and>
            get_ticket ''ticket-9'' ?db = Inl (HTTP_404 ''Ticket not found'')"
    by simp
  from t [where ticket_id = "''ticket-1''" and status = "''in_progress''"] e1 v c
  have p4: "\<exists>db'. update_ticket_status ''ticket-1'' ''in_progress'' ?db =
          (Inr \<lparr>su_message = ''Ticket status updated'', su_ticket_id = ''ticket-1'',
                su_status = ''IN_PROGRESS''\<rparr>, db') \<and>
          stored_status ''ticket-1'' db' = Some ''IN_PROGRESS''"
    by (simp add: u)
  from q c e1 e9 b v p1 p2 p3 p4 show ?thesis by blast
qed

section \<open>Properties of the keyword search\<close>

lemma score_words_step:
  "score_words (w # ws) k t c s = score_words ws k t c (s + word_points w k t c)"
  by (simp add: Let_def word_points_def add.commute)

lemma score_words_sum:
  "score_words ws k t c s = s + sum_list (map (\<lambda>w. word_points w k t c) ws)"
  by (induction ws arbitrary: s) (simp_all add: score_words_step del: score_words.simps(2))

lemma score_words_all:
  assumes "list_all (\<lambda>w. py_in w k \<and> py_in w t \<and> py_in w c) ws"
  shows "score_words ws k t c 0 = 10 * int (length ws)"
  using assms unfolding score_words_sum
  by (induction ws) (simp_all add: word_points_def)

lemma score_words_content:
  assumes "list_all (\<lambda>w. \<not> py_in w k \<and> \<not> py_in w t) ws"
  shows "score_words ws k t c 0 \<le> 2 * int (length ws)"
  using assms unfolding score_words_sum
  by (induction ws) (simp_all add: word_points_def)

lemma py_in_empty: "w \<noteq> [] \<Longrightarrow> \<not> py_in w []"
  by simp

lemma lower_Nil: "lower [] = []"
  by (simp add: lower_def)

lemma score_everywhere:
  assumes "matches_everywhere ws a"
  shows "chunk_score ws a \<ge> 10 * int (length ws)"
proof -
  have "(if kc_kb_id a \<noteq> [] then lower (kc_kb_id a) else []) = lower (kc_kb_id a)"
    by (simp add: lower_Nil)
  with assms show ?thesis
    unfolding matches_everywhere_def chunk_score_def Let_def
    by (simp add: score_words_all)
qed

lemma score_content_only:
  assumes "matches_content_only ws b"
  shows "chunk_score ws b \<le> 2 * int (length ws) + (if length ws > 1 then 10 else 0)"
proof -
  have "(if kc_kb_id b \<noteq> [] then lower (kc_kb_id b) else []) = lower (kc_kb_id b)"
    by (simp add: lower_Nil)
  with assms score_words_content [of "lower (kc_kb_id b)" "lower (kc_title b)" ws
      "lower (kc_content b)"]
  show ?thesis
    unfolding matches_content_only_def chunk_score_def Let_def
    by auto
qed

lemma score_strictly_higher:
  assumes "ws \<noteq> []" and "matches_everywhere ws a" and "matches_content_only ws b"
  shows "chunk_score ws b < chunk_score ws a" and "0 < chunk_score ws a"
proof -
  from assms(1) have n: "length ws \<ge> 1" by (cases ws) auto
  from score_everywhere [OF assms(2)] score_content_only [OF assms(3)] n
  show "chunk_score ws b < chunk_score ws a" by (auto split: if_splits)
  from score_everywhere [OF assms(2)] n show "0 < chunk_score ws a" by auto
qed

lemma score_of_scored_chunk: "score_of (scored_chunk c n) = n"
  by (simp add: score_of_def scored_chunk_def)

lemma sorted_index_order:
  assumes "sorted (map f xs)" and "i < length xs" and "j < length xs"
    and "f (xs ! i) < f (xs ! j)"
  shows "i < j"
proof (rule ccontr)
  assume "\<not> i < j"
  then have "j \<le> i" by simp
  with assms(1,2) have "map f xs ! j \<le> map f xs ! i"
    by (intro sorted_nth_mono) auto
  with assms(2,3,4) show False by simp
qed

text \<open>
  C8. For a query with at least one topic word, a stored chunk whose kbId, title and
  content each contain every topic word has a strictly higher score than a stored
  chunk that has no topic word in its kbId or title, and wherever the second chunk
  stands in the returned list, the first stands before it.
\<close>

theorem keyword_search_ranks_full_match_first:
  assumes "search_words query \<noteq> []"
    and "a \<in> set chunks" and "b \<in> set chunks"
    and "matches_everywhere (search_words query) a"
    and "matches_content_only (search_words query) b"
  shows "chunk_score (search_words query) b < chunk_score (search_words query) a \<and>
         (\<forall>j < length (keyword_search query top_k (Inr chunks)).
            keyword_search query top_k (Inr chunks) ! j = result_of query b \<longrightarrow>
            (\<exists>i < j. keyword_search query top_k (Inr chunks) ! i = result_of query a))"
proof (intro conjI allI impI)
  let ?ws = "search_words query"
  let ?f = "\<lambda>x. - score_of x"
  let ?scored = "map (\<lambda>chunk. scored_chunk chunk (chunk_score ?ws chunk))
                   (filter (\<lambda>chunk. chunk_score ?ws chunk > 0) chunks)"
  let ?xs = "sort_key ?f ?scored"
  let ?res = "keyword_search query top_k (Inr chunks)"
  have res: "?res = take (py_index ?xs top_k) ?xs"
    by (simp add: keyword_search_def py_upto_def Let_def)
  show less: "chunk_score ?ws b < chunk_score ?ws a"
    using assms(1,4,5) by (rule score_strictly_higher(1))
  have pos: "0 < chunk_score ?ws a"
    using assms(1,4,5) by (rule score_strictly_higher(2))
  fix j
  assume j: "j < length ?res" and at_j: "?res ! j = result_of query b"
  from j have jm: "j < py_index ?xs top_k" and jx: "j < length ?xs"
    by (simp_all add: res)
  from at_j jm have xj: "?xs ! j = result_of query b"
    by (simp add: res)
  from assms(2) pos have "result_of query a \<in> set ?scored"
    by (auto simp: result_of_def)
  then have "result_of query a \<in> set ?xs" by simp
  then obtain i where ix: "i < length ?xs" and xi: "?xs ! i = result_of query a"
    unfolding in_set_conv_nth by blast
  have srt: "sorted (map ?f ?xs)" by (rule sorted_sort_key)
  have lt: "?f (?xs ! i) < ?f (?xs ! j)"
    using less by (simp add: xi xj result_of_def score_of_scored_chunk)
  have ij: "i < j"
    by (rule sorted_index_order [OF srt ix jx lt])
  moreover from ij jm xi have "?res ! i = result_of query a"
    by (simp add: res)
  ultimately show "\<exists>i<j. ?res ! i = result_of query a" by blast
qed

text \<open>The query ``mfa reset'' over the two chunks, the weaker one stored first: the
  scores are 30 and 14.\<close>

theorem keyword_search_ranks_witness:
  "search_words ''mfa reset'' \<noteq> [] \<and>
   mfa_chunk \<in> set [login_chunk, mfa_chunk] \<and>
   login_chunk \<in> set [login_chunk, mfa_chunk] \<and>
   matches_everywhere (search_words ''mfa reset'') mfa_chunk \<and>
   matches_content_only (search_words ''mfa reset'') login_chunk \<and>
   chunk_score (search_words ''mfa reset'') login_chunk <
     chunk_score (search_words ''mfa reset'') mfa_chunk \<and>
   length (keyword_search ''mfa reset'' 5 (Inr [login_chunk, mfa_chunk])) = 2 \<and>
   keyword_search ''mfa reset'' 5 (Inr [login_chunk, mfa_chunk]) ! 1 =
     result_of ''mfa reset'' login_chunk \<and>
   keyword_search ''mfa reset'' 5 (Inr [login_chunk, mfa_chunk]) ! 0 =
     result_of ''mfa reset'' mfa_chunk"
proof -
  have h1: "search_words ''mfa reset'' \<noteq> []" by code_simp
  have h2: "mfa_chunk \<in> set [login_chunk, mfa_chunk]" by simp
  have h3: "login_chunk \<in> set [login_chunk, mfa_chunk]" by simp
  have h4: "matches_everywhere (search_words ''mfa reset'') mfa_chunk" by code_simp
  have h5: "matches_content_only (search_words ''mfa reset'') login_chunk" by code_simp
  have h6: "length (keyword_search ''mfa reset'' 5 (Inr [login_chunk, mfa_chunk])) = 2"
    by code_simp
  have h7: "keyword_search ''mfa reset'' 5 (Inr [login_chunk, mfa_chunk]) ! 1 =
              result_of ''mfa reset'' login_chunk"
    by code_simp
  note t = keyword_search_ranks_full_match_first [OF h1 h2 h3 h4 h5, of 5]
  from t have "\<forall>j < length (keyword_search ''mfa reset'' 5 (Inr [login_chunk, mfa_chunk])).
      keyword_search ''mfa reset'' 5 (Inr [login_chunk, mfa_chunk]) ! j =
        result_of ''mfa reset'' login_chunk \<longrightarrow>
      (\<exists>i < j. keyword_search ''mfa reset'' 5 (Inr [login_chunk, mfa_chunk]) ! i =
                 result_of ''mfa reset'' mfa_chunk)"
    by (rule conjunct2)
  from this [rule_format, of 1] h6 h7
  have "\<exists>i<1. keyword_search ''mfa reset'' 5 (Inr [login_chunk, mfa_chunk]) ! i =
      result_of ''mfa reset'' mfa_chunk"
    by simp
  then have h8: "keyword_search ''mfa reset'' 5 (Inr [login_chunk, mfa_chunk]) ! 0 =
      result_of ''mfa reset'' mfa_chunk"
    by auto
  from h1 h2 h3 h4 h5 h6 h7 h8 t show ?thesis by blast
qed

lemma keyword_search_example:
  "map score_of (keyword_search ''mfa reset'' 5 (Inr [login_chunk, mfa_chunk])) = [30, 14]"
  by code_simp

section \<open>Properties of the chat endpoint\<close>

lemma boost_CRITICAL: "boost CRITICAL = CRITICAL"
  by (simp add: boost_def)

lemma boost_not_CRITICAL: "s \<noteq> CRITICAL \<Longrightarrow> boost s \<noteq> CRITICAL"
  by (cases s) (simp_all add: boost_def)

lemma kernel_panic_is_critical_keyword:
  "py_in ''kernel panic'' s \<Longrightarrow> any_in CRITICAL_KEYWORDS s"
  by (simp add: any_in_def CRITICAL_KEYWORDS_def)

lemma classify_critical_keyword:
  assumes "any_in CRITICAL_KEYWORDS (lower m)"
  shows "classify_tier_and_severity m c s h n = (TIER_3, CRITICAL, True)"
  using assms
  by (simp add: classify_tier_and_severity_def keyword_severity_def boost_CRITICAL Let_def)

lemma classify_severity_not_critical:
  assumes "\<not> any_in CRITICAL_KEYWORDS (lower m)"
  shows "fst (snd (classify_tier_and_severity m c s h n)) \<noteq> CRITICAL"
  using assms
  by (auto simp: classify_tier_and_severity_def keyword_severity_def Let_def boost_def)

lemma to_ChatResponse_Inr:
  "to_ChatResponse a k c t s n b r i = Inr response \<longleftrightarrow>
     0 \<le> c \<and> c \<le> 1 \<and>
     response = \<lparr>cr_answer = a, cr_kbReferences = k, cr_confidence = c, cr_tier = t,
                 cr_severity = s, cr_needsEscalation = n, cr_guardrail_blocked = b,
                 cr_guardrail_reason = r, cr_ticketId = i\<rparr>"
  by (auto simp: to_ChatResponse_def)

lemma chat_classified_kernel_panic:
  assumes "chat_classified request conversation history rag blocked reason True score n db =
             (Inr response, db')"
    and "kernel_panic_with_fix (rq_message request)"
  shows "cr_needsEscalation response \<and> cr_tier response = TIER_3 \<and>
         cr_severity response = CRITICAL \<and> cr_ticketId response \<noteq> None"
proof -
  from assms(2) have kp: "any_in CRITICAL_KEYWORDS (lower (rq_message request))"
    and fx: "any_in FIX_WORDS (lower (rq_message request))"
    by (simp_all add: kernel_panic_with_fix_def kernel_panic_is_critical_keyword)
  note c = classify_critical_keyword [OF kp]
  from assms(1) show ?thesis
    unfolding chat_classified_def Let_def c kernel_panic_pass_def
    by (auto simp: fx truthy_str_def to_ChatResponse_Inr
          split: prod.splits sum.splits if_splits option.splits)
qed


lemma internal_error_Inr:
  "internal_error r = (Inr v, db') \<longleftrightarrow> r = (Inr v, db')"
  by (cases r; cases "fst r") (auto simp: internal_error_def)

text \<open>A request that gets a response and is neither blocked at the start nor answered
  with a clarifying question reaches the classification.\<close>

lemma chat_reaches_classification:
  assumes "chat request rag db = (Inr response, db')"
    and "\<not> asks_clarifying request rag"
    and "py_in ''kernel panic'' (lower (rq_message request)) \<or>
         \<not> fst (check_guardrail (rq_message request) (rq_userRole request))"
  shows "\<exists>conversation history score n db1.
           chat_classified request conversation history rag
             (fst (check_guardrail (rq_message request) (rq_userRole request)))
             (snd (check_guardrail (rq_message request) (rq_userRole request)))
             (py_in ''kernel panic'' (lower (rq_message request))) score n db1 =
           (Inr response, db')"
proof -
  obtain b r where cg: "check_guardrail (rq_message request) (rq_userRole request) = (b, r)"
    by (cases "check_guardrail (rq_message request) (rq_userRole request)")
  obtain a q where sq: "should_ask_clarifying_question (rq_message request)
            (length (rr_kbReferences rag)) (rr_confidence rag) = (a, q)"
    by (cases "should_ask_clarifying_question (rq_message request)
            (length (rr_kbReferences rag)) (rr_confidence rag)")
  from assms(2) sq have nc: "\<not> (a \<and> truthy_str q)"
    by (simp add: asks_clarifying_def)
  from assms(1,3) nc show ?thesis
    unfolding chat_def internal_error_Inr chat_answered_def Let_def cg sq
    by (auto split: prod.splits sum.splits if_splits) blast+
qed

text \<open>
  C2, as amended. For every chat request whose message contains ``kernel panic''
  together with one of ``fix'', ``how to fix'', ``debug'', ``repair'': whenever the
  endpoint returns a response and did not answer with a clarifying question, the
  response has needsEscalation true, tier \<open>TIER_3\<close>, severity \<open>CRITICAL\<close> and a ticket
  id. ``kernel panic'' is a critical keyword, so the classifier itself always
  escalates such a message as \<open>CRITICAL\<close> and the forcing of \<open>TIER_3\<close> and \<open>HIGH\<close> is
  never reached.
\<close>

theorem kernel_panic_fix_escalates_as_critical:
  assumes "chat request rag db = (Inr response, db')"
    and "kernel_panic_with_fix (rq_message request)"
    and "\<not> asks_clarifying request rag"
  shows "cr_needsEscalation response = True \<and> cr_tier response = TIER_3 \<and>
         cr_severity response = CRITICAL \<and> cr_ticketId response \<noteq> None"
proof -
  from assms(2) have kp: "py_in ''kernel panic'' (lower (rq_message request))"
    by (simp add: kernel_panic_with_fix_def)
  from chat_reaches_classification [OF assms(1,3)] kp
  obtain conversation history score n db1 where
    "chat_classified request conversation history rag
       (fst (check_guardrail (rq_message request) (rq_userRole request)))
       (snd (check_guardrail (rq_message request) (rq_userRole request)))
       True score n db1 = (Inr response, db')"
    by auto
  from chat_classified_kernel_panic [OF this assms(2)] show ?thesis by simp
qed

lemma response_of_Some:
  "response_of r = Some response \<Longrightarrow> \<exists>db'. r = (Inr response, db')"
  by (cases r; cases "fst r") (auto simp: response_of_def)

theorem kernel_panic_fix_witness:
  "kernel_panic_with_fix (rq_message kernel_panic_request) \<and>
   \<not> asks_clarifying kernel_panic_request kernel_rag_result \<and>
   (\<exists>response db'.
      chat kernel_panic_request kernel_rag_result (example_session [] empty_tables) =
        (Inr response, db') \<and>
      cr_needsEscalation response = True \<and> cr_tier response = TIER_3 \<and>
      cr_severity response = CRITICAL \<and> cr_ticketId response \<noteq> None)"
proof -
  have h1: "kernel_panic_with_fix (rq_message kernel_panic_request)" by code_simp
  have h2: "\<not> asks_clarifying kernel_panic_request kernel_rag_result" by code_simp
  have "response_of (chat kernel_panic_request kernel_rag_result
          (example_session [] empty_tables)) \<noteq> None"
    by code_simp
  then obtain response db' where
    h3: "chat kernel_panic_request kernel_rag_result (example_session [] empty_tables) =
           (Inr response, db')"
    by (auto dest: response_of_Some)
  from h1 h2 h3 kernel_panic_fix_escalates_as_critical [OF h3 h1 h2]
  show ?thesis by blast
qed

text \<open>The claim as stated fails: the response to ``How to fix kernel panic on my lab
  VM?'' has severity \<open>CRITICAL\<close>, not \<open>HIGH\<close>.\<close>

theorem kernel_panic_fix_severity_counterexample:
  "kernel_panic_with_fix (rq_message kernel_panic_request) \<and>
   map_option cr_severity
     (response_of (chat kernel_panic_request kernel_rag_result
        (example_session [] empty_tables))) = Some CRITICAL"
  by code_simp

lemma length_dropWhile_le: "length (dropWhile P xs) \<le> length xs"
  by (induction xs) auto

lemma length_py_strip: "length (py_strip s) \<le> length s"
  using length_dropWhile_le [of is_space "rev (dropWhile is_space s)"]
    length_dropWhile_le [of is_space s]
  by (simp add: py_strip_def)

lemma time_drift_pass_defective:
  assumes "is_time_drift query_lower" and "defective_answer answer"
  shows "time_drift_pass query_lower answer = TIME_DRIFT_ANSWER"
proof -
  have "length answer < 150 \<Longrightarrow> length (py_strip answer) < 150"
    using length_py_strip [of answer] by simp
  moreover have "answer = [] \<Longrightarrow> py_strip answer = []"
    by (simp add: py_strip_def)
  ultimately show ?thesis
    using assms unfolding time_drift_pass_def defective_answer_def Let_def
    by auto
qed

lemma add_message_content:
  assumes "add_message c r content conf t s k b g db = (Inr m, db')"
  shows "content = Some (msg_content m)"
  using assms
  by (auto simp: add_message_def fresh_id_def Let_def split: option.splits prod.splits sum.splits)

lemma final_answer_kept:
  assumes "has_kb \<or> (severity \<noteq> CRITICAL \<and> \<not> any_in TECHNICAL_WORDS query_lower)"
  shows "final_answer query_lower severity has_kb needs ticket_id answer = answer"
  using assms by (auto simp: final_answer_def Let_def)

lemma kernel_panic_pass_unblocked:
  assumes "kernel_panic_pass request conversation history rag False reason needs t s ticket_id
             answer db = (Inr (needs', t', s', ticket_id', answer'), db')"
  shows "answer' = answer \<and> (s' = s \<or> s' = HIGH)"
  using assms unfolding kernel_panic_pass_def Let_def
  by (auto split: prod.splits sum.splits if_splits)

lemma time_drift_pass_fixed:
  "time_drift_pass query_lower TIME_DRIFT_ANSWER = TIME_DRIFT_ANSWER"
  by (simp add: time_drift_pass_def Let_def)

lemma generated_answer_time_drift:
  assumes "is_time_drift (lower query)"
  shows "\<exists>x. generated_answer query llm template_answer = Some x \<and>
             (x = TIME_DRIFT_ANSWER \<or> llm_or_template llm template_answer = Some x)"
  using assms by (auto simp: generated_answer_def Let_def split: option.splits)

lemma generated_answer_defective:
  assumes "is_time_drift (lower query)"
    and "defective_generation (llm_or_template llm template_answer)"
  shows "\<exists>x. generated_answer query llm template_answer = Some x \<and>
             time_drift_pass (lower query) x = TIME_DRIFT_ANSWER"
proof -
  from generated_answer_time_drift [OF assms(1)] obtain x
    where x: "generated_answer query llm template_answer = Some x"
      and c: "x = TIME_DRIFT_ANSWER \<or> llm_or_template llm template_answer = Some x"
    by blast
  from c have "time_drift_pass (lower query) x = TIME_DRIFT_ANSWER"
  proof
    assume "x = TIME_DRIFT_ANSWER"
    then show ?thesis by (simp add: time_drift_pass_fixed)
  next
    assume "llm_or_template llm template_answer = Some x"
    with assms(2) have "defective_answer x" by (simp add: defective_generation_def)
    with assms(1) show ?thesis by (rule time_drift_pass_defective)
  qed
  with x show ?thesis by blast
qed

lemma chat_classified_time_drift:
  assumes "chat_classified request conversation history rag False reason kp score n db =
             (Inr response, db')"
    and "is_time_drift (lower (rq_message request))"
    and "rr_answer rag = Some answer"
    and "time_drift_pass (lower (rq_message request)) answer = TIME_DRIFT_ANSWER"
    and "keeps_answer request rag"
  shows "cr_answer response = TIME_DRIFT_ANSWER"
proof -
  obtain t s e where c: "classify_tier_and_severity (rq_message request) (rr_confidence rag)
      score (length (rr_kbReferences rag) > 0) n = (t, s, e)"
    by (cases "classify_tier_and_severity (rq_message request) (rr_confidence rag)
      score (length (rr_kbReferences rag) > 0) n") auto
  have sev: "s \<noteq> CRITICAL" if "rr_kbReferences rag = []"
  proof -
    from that assms(5) have "\<not> any_in CRITICAL_KEYWORDS (lower (rq_message request))"
      by (simp add: keeps_answer_def)
    from classify_severity_not_critical [OF this, of "rr_confidence rag" score
        "length (rr_kbReferences rag) > 0" n] c
    show ?thesis by simp
  qed
  have keep: "final_answer (lower (rq_message request)) s' (rr_kbReferences rag \<noteq> [])
        needs ticket_id a = a" if "s' = s \<or> s' = HIGH" for s' needs ticket_id a
    using assms(5) sev that by (intro final_answer_kept) (auto simp: keeps_answer_def)
  have td: "time_drift_pass (lower (rq_message request)) (msg_content m) = TIME_DRIFT_ANSWER"
    if "Some answer = Some (msg_content m)" for m
    using that assms(4) by simp
  from assms(1) show ?thesis
    unfolding chat_classified_def Let_def c
    by (auto simp: to_ChatResponse_Inr assms(3) td keep
          dest!: add_message_content kernel_panic_pass_unblocked
          split: prod.splits sum.splits if_splits option.splits)
qed

text \<open>
  C3, as amended. For every chat request whose message matches the time-drift
  heuristic: if the answer of the language model (or of the template, when the call
  of the model raises) is absent, blank, shorter than 150 characters or without any
  of the time-drift keywords, and the RAG result carries what answer generation makes
  of it, or if the answer of the RAG result itself is blank, shorter than 150
  characters or without any of the keywords, then, whenever the endpoint returns a
  response, the guardrail did not block the message, no clarifying question was asked
  and the last pass leaves the answer alone (there is a KB match, or the message has
  neither a critical keyword nor a technical-issue word), the answer of the response
  is the fixed time-drift answer, verbatim.
\<close>

theorem time_drift_defective_answer_is_replaced:
  assumes "chat request rag db = (Inr response, db')"
    and "is_time_drift (lower (rq_message request))"
    and "rr_answer rag = generated_answer (rq_message request) llm template_answer \<and>
         defective_generation (llm_or_template llm template_answer) \<or>
         rr_answer rag = Some answer \<and> defective_answer answer"
    and "\<not> fst (check_guardrail (rq_message request) (rq_userRole request))"
    and "\<not> asks_clarifying request rag"
    and "keeps_answer request rag"
  shows "cr_answer response = TIME_DRIFT_ANSWER"
proof -
  from assms(3) have "\<exists>x. rr_answer rag = Some x \<and>
      time_drift_pass (lower (rq_message request)) x = TIME_DRIFT_ANSWER"
  proof
    assume "rr_answer rag = generated_answer (rq_message request) llm template_answer \<and>
         defective_generation (llm_or_template llm template_answer)"
    with generated_answer_defective [OF assms(2), of llm template_answer]
    show ?thesis by auto
  next
    assume d: "rr_answer rag = Some answer \<and> defective_answer answer"
    then have "time_drift_pass (lower (rq_message request)) answer = TIME_DRIFT_ANSWER"
      using assms(2) by (simp add: time_drift_pass_defective)
    with d show ?thesis by blast
  qed
  then obtain x where x: "rr_answer rag = Some x"
    and td: "time_drift_pass (lower (rq_message request)) x = TIME_DRIFT_ANSWER"
    by blast
  from chat_reaches_classification [OF assms(1,5)] assms(4)
  obtain conversation history score n db1 where
    "chat_classified request conversation history rag False
       (snd (check_guardrail (rq_message request) (rq_userRole request)))
       (py_in ''kernel panic'' (lower (rq_message request))) score n db1 = (Inr response, db')"
    by auto
  from chat_classified_time_drift [OF this assms(2) x td assms(6)] show ?thesis .
qed

text \<open>A time-drift request for which the language model returned no content, and one
  for which the RAG service found nothing.\<close>

theorem time_drift_witness:
  "is_time_drift (lower (rq_message clock_request)) \<and>
   \<not> fst (check_guardrail (rq_message clock_request) (rq_userRole clock_request)) \<and>
   rr_answer absent_rag_result =
     generated_answer (rq_message clock_request) (LLM_returns None) [] \<and>
   defective_generation (llm_or_template (LLM_returns None) []) \<and>
   \<not> asks_clarifying clock_request absent_rag_result \<and>
   keeps_answer clock_request absent_rag_result \<and>
   (\<exists>response db'.
      chat clock_request absent_rag_result (example_session [] empty_tables) =
        (Inr response, db') \<and>
      cr_answer response = TIME_DRIFT_ANSWER) \<and>
   rr_answer empty_rag_result = Some NOT_IN_KB_ANSWER \<and>
   defective_answer NOT_IN_KB_ANSWER \<and>
   \<not> asks_clarifying clock_request empty_rag_result \<and>
   keeps_answer clock_request empty_rag_result \<and>
   (\<exists>response db'.
      chat clock_request empty_rag_result (example_session [] empty_tables) =
        (Inr response, db') \<and>
      cr_answer response = TIME_DRIFT_ANSWER)"
proof -
  have h2: "is_time_drift (lower (rq_message clock_request))" by code_simp
  have h4: "\<not> fst (check_guardrail (rq_message clock_request) (rq_userRole clock_request))"
    by code_simp
  have a1: "rr_answer absent_rag_result =
      generated_answer (rq_message clock_request) (LLM_returns None) []"
    by (simp add: absent_rag_result_def)
  have a2: "defective_generation (llm_or_template (LLM_returns None) [])"
    by (simp add: defective_generation_def llm_or_template_def)
  from a1 a2 have a3: "rr_answer absent_rag_result =
      generated_answer (rq_message clock_request) (LLM_returns None) [] \<and>
      defective_generation (llm_or_template (LLM_returns None) []) \<or>
      rr_answer absent_rag_result = Some [] \<and> defective_answer []"
    by simp
  have a5: "\<not> asks_clarifying clock_request absent_rag_result" by code_simp
  have a6: "keeps_answer clock_request absent_rag_result" by code_simp
  have "response_of (chat clock_request absent_rag_result
          (example_session [] empty_tables)) \<noteq> None"
    by code_simp
  then obtain response1 db1 where
    a0: "chat clock_request absent_rag_result (example_session [] empty_tables) =
           (Inr response1, db1)"
    by (auto dest: response_of_Some)
  have b1: "rr_answer empty_rag_result = Some NOT_IN_KB_ANSWER"
    by (simp add: empty_rag_result_def)
  have b2: "defective_answer NOT_IN_KB_ANSWER" by code_simp
  from b1 b2 have b3: "rr_answer empty_rag_result =
      generated_answer (rq_message clock_request) LLM_raises [] \<and>
      defective_generation (llm_or_template LLM_raises []) \<or>
      rr_answer empty_rag_result = Some NOT_IN_KB_ANSWER \<and>
      defective_answer NOT_IN_KB_ANSWER"
    by simp
  have b5: "\<not> asks_clarifying clock_request empty_rag_result" by code_simp
  have b6: "keeps_answer clock_request empty_rag_result" by code_simp
  have "response_of (chat clock_request empty_rag_result
          (example_session [] empty_tables)) \<noteq> None"
    by code_simp
  then obtain response2 db2 where
    b0: "chat clock_request empty_rag_result (example_session [] empty_tables) =
           (Inr response2, db2)"
    by (auto dest: response_of_Some)
  from h2 h4 a1 a2 a5 a6 a0 b1 b2 b5 b6 b0
    time_drift_defective_answer_is_replaced [OF a0 h2 a3 h4 a5 a6]
    time_drift_defective_answer_is_replaced [OF b0 h2 b3 h4 b5 b6]
  show ?thesis by blast
qed

text \<open>The claim as stated fails: for ``The clock sync crashed on my lab VM'' without a
  KB match the time-drift pass puts the fixed answer in, and the last pass replaces
  it by the answer for critical issues.\<close>

theorem time_drift_answer_overwritten_counterexample:
  "is_time_drift (lower (rq_message clock_crash_request)) \<and>
   defective_answer NOT_IN_KB_ANSWER \<and>
   map_option cr_answer
     (response_of (chat clock_crash_request empty_rag_result
        (example_session [] empty_tables))) = Some (critical_answer ''id-xxx'') \<and>
   critical_answer ''id-xxx'' \<noteq> TIME_DRIFT_ANSWER"
  by code_simp

section \<open>Properties of the KB-conflict resolution\<close>



text \<open>A version that is a string scores nothing.\<close>

lemma string_version_scores_nothing:
  "py_get md ''version'' (py_get chunk ''version'' (PStr ''0'')) = PStr s \<Longrightarrow>
   version_points md chunk = 0"
  by (simp add: version_points_def)











section \<open>Properties of the metrics trends\<close>

text \<open>
  C9. At 2024-01-10 15:00 UTC with \<open>days = 1\<close> and one ticket created at 09:00 UTC of
  the same day, the operation returns the two entries of 2024-01-09 and 2024-01-10
  (days 19731 and 19732), but the ticket is counted in the entry of 2024-01-09: each
  entry counts the 24 hours that start at the time of day of the request, not the
  calendar day it is labelled with.
\<close>

theorem trends_window_is_not_the_calendar_day:
  "date_of example_now = 19732 \<and>
   date_of (t_created_at example_ticket) = 19732 \<and>
   tickets_on_day 19732 example_tables = 1 \<and>
   map (\<lambda>e. (mt_date e, mt_tickets e)) (get_metrics_trends 1 example_now example_tables) =
     [(19731, 1), (19732, 0)]"
  by (simp add: get_metrics_trends_def trends_entry_def date_of_def day_def example_now_def
        example_tables_def example_ticket_def empty_tables_def tickets_on_day_def Let_def)

end
